theory Spec2Isabelle
  imports Complex_Main
begin

section \<open>Swim summary statistics of the FIT parser\<close>

text \<open>
  The development embeds the unit converter, the pool classification of the session
  extractor and the summary aggregator of \<^verbatim>\<open>fit_parser.py\<close>, and the cumulative pace of
  \<^verbatim>\<open>report_generator.py\<close>. Python floats are read as real numbers: every arithmetic
  operation is exact, so rounding error, infinities and NaN of the binary format are outside
  the model. Python integers are \<^typ>\<open>int\<close>. A dictionary whose keys are fixed by the code
  is a record of optional fields (\<open>None\<close>: the key is absent, or holds Python's \<open>None\<close>,
  which \<^verbatim>\<open>dict.get\<close> does not tell apart).
\<close>

subsection \<open>Number formatting\<close>

text \<open>\<^verbatim>\<open>str(n)\<close> of a non-negative integer: its decimal digits.\<close>

definition digit_char :: "nat \<Rightarrow> char" where
  "digit_char d = ''0123456789'' ! d"

fun digits :: "nat \<Rightarrow> string" where
  "digits n = (if n < 10 then [digit_char n] else digits (n div 10) @ [digit_char (n mod 10)])"

declare digits.simps [simp del]

definition str_of_int :: "int \<Rightarrow> string" where
  "str_of_int i = (if i < 0 then CHR ''-'' # digits (nat (- i)) else digits (nat i))"

text \<open>The format specification \<^verbatim>\<open>{i:02d}\<close>: zero padding up to width two, sign included.\<close>

definition fmt_02d :: "int \<Rightarrow> string" where
  "fmt_02d i = (let s = str_of_int i in replicate (2 - length s) CHR ''0'' @ s)"

text \<open>Floor division \<^verbatim>\<open>x // y\<close> followed by \<^verbatim>\<open>int(...)\<close>, and the remainder \<^verbatim>\<open>x % y\<close>.\<close>

definition py_floordiv :: "real \<Rightarrow> real \<Rightarrow> int" where
  "py_floordiv x y = \<lfloor>x / y\<rfloor>"

definition py_mod :: "real \<Rightarrow> real \<Rightarrow> real" where
  "py_mod x y = x - y * of_int \<lfloor>x / y\<rfloor>"

subsection \<open>Unit converter\<close>

definition format_time :: "real \<Rightarrow> string" where
  "format_time seconds =
     (let hours = py_floordiv seconds 3600;
          minutes = py_floordiv (py_mod seconds 3600) 60;
          secs = \<lfloor>py_mod seconds 60\<rfloor>
      in if hours > 0
         then str_of_int hours @ '':'' @ fmt_02d minutes @ '':'' @ fmt_02d secs
         else fmt_02d minutes @ '':'' @ fmt_02d secs)"

definition calculate_pace :: "real \<Rightarrow> string option" where
  "calculate_pace speed_mps =
     (if speed_mps = 0 then None
      else let pace_seconds = 100 / speed_mps in Some (format_time pace_seconds))"

definition calculate_pace_per_100yd :: "real \<Rightarrow> string option" where
  "calculate_pace_per_100yd speed_mps =
     (if speed_mps = 0 then None
      else let speed_ydps = speed_mps * (109361 / 100000);
               pace_seconds = 100 / speed_ydps
           in Some (format_time pace_seconds))"

text \<open>
  \<^verbatim>\<open>round(x, 1)\<close>: the nearest multiple of one tenth, a tie going to the even one. (On
  the binary float the tie is decided on the stored value; on the reals it is exact.)
\<close>

definition round_half_even :: "real \<Rightarrow> int" where
  "round_half_even x =
     (let f = \<lfloor>x\<rfloor>; d = x - of_int f
      in if d < 1 / 2 then f else if 1 / 2 < d then f + 1 else if even f then f else f + 1)"

definition py_round1 :: "real \<Rightarrow> real" where
  "py_round1 x = of_int (round_half_even (x * 10)) / 10"

subsection \<open>Reading a pace string back\<close>

text \<open>
  \<^verbatim>\<open>s.split(':')\<close>: the pieces between the colons, always at least one piece.
\<close>

fun split_colon :: "string \<Rightarrow> string list" where
  "split_colon [] = [[]]"
| "split_colon (c # cs) =
     (if c = CHR '':'' then [] # split_colon cs
      else (case split_colon cs of [] \<Rightarrow> [[c]] | p # ps \<Rightarrow> (c # p) # ps))"

text \<open>
  \<^verbatim>\<open>int(s)\<close> on a string, for characters that are code points below 256: surrounding
  white space is dropped, one sign may lead, and the rest is decimal digits in which single
  underscores may stand between two digits. \<open>None\<close> is the \<^verbatim>\<open>ValueError\<close>.
\<close>

definition py_isspace :: "char \<Rightarrow> bool" where
  "py_isspace c \<longleftrightarrow> c \<in> set [CHR 0x09, CHR 0x0A, CHR 0x0B, CHR 0x0C, CHR 0x0D,
     CHR 0x1C, CHR 0x1D, CHR 0x1E, CHR 0x1F, CHR 0x20, CHR 0x85, CHR 0xA0]"

definition digit_val :: "char \<Rightarrow> nat option" where
  "digit_val c = map_of (zip ''0123456789'' [0, 1, 2, 3, 4, 5, 6, 7, 8, 9]) c"

definition py_strip :: "string \<Rightarrow> string" where
  "py_strip s = rev (dropWhile py_isspace (rev (dropWhile py_isspace s)))"

fun int_digits :: "nat \<Rightarrow> bool \<Rightarrow> string \<Rightarrow> nat option" where
  "int_digits acc after_underscore [] = (if after_underscore then None else Some acc)"
| "int_digits acc after_underscore (c # cs) =
     (if c = CHR ''_'' then (if after_underscore then None else int_digits acc True cs)
      else (case digit_val c of
              None \<Rightarrow> None
            | Some d \<Rightarrow> int_digits (10 * acc + d) False cs))"

definition py_int :: "string \<Rightarrow> int option" where
  "py_int s =
     (let t = py_strip s;
          negative = (case t of [] \<Rightarrow> False | c # _ \<Rightarrow> c = CHR ''-'');
          u = (case t of [] \<Rightarrow> [] | c # r \<Rightarrow> if c = CHR ''-'' \<or> c = CHR ''+'' then r else t)
      in case u of
           [] \<Rightarrow> None
         | c # _ \<Rightarrow>
             if c = CHR ''_'' then None
             else (case int_digits 0 False u of
                     None \<Rightarrow> None
                   | Some n \<Rightarrow> Some (if negative then - int n else int n)))"

text \<open>
  The body of the \<^verbatim>\<open>try\<close> block of the lap loop: a pace string of exactly two
  colon-separated parts, both integers, is worth \<open>minutes * 60 + seconds\<close>; anything else
  (another number of parts, or a \<^verbatim>\<open>ValueError\<close> swallowed by the bare \<^verbatim>\<open>except\<close>)
  contributes nothing.
\<close>

definition pace_to_seconds :: "string \<Rightarrow> int option" where
  "pace_to_seconds pace_str =
     (let parts = split_colon pace_str
      in if length parts = 2
         then (case py_int (parts ! 0) of
                 None \<Rightarrow> None
               | Some m \<Rightarrow> (case py_int (parts ! 1) of
                             None \<Rightarrow> None
                           | Some sec \<Rightarrow> Some (m * 60 + sec)))
         else None)"

subsection \<open>Data model\<close>

text \<open>\<^verbatim>\<open>d.get(key, default)\<close> on an optional field.\<close>

definition dict_get :: "'a \<Rightarrow> 'a option \<Rightarrow> 'a" where
  "dict_get d v = (case v of None \<Rightarrow> d | Some x \<Rightarrow> x)"

text \<open>Truth value of an optional string: \<^verbatim>\<open>None\<close> and the empty string are false.\<close>

definition truthy :: "string option \<Rightarrow> bool" where
  "truthy p = (case p of None \<Rightarrow> False | Some s \<Rightarrow> s \<noteq> [])"

text \<open>
  The session dictionary, with the keys the summary reads and the ones written along with
  them. The keys \<^verbatim>\<open>timestamp\<close>, \<^verbatim>\<open>date\<close>, \<^verbatim>\<open>time\<close>, \<^verbatim>\<open>total_calories\<close>,
  \<^verbatim>\<open>avg_heart_rate\<close>, \<^verbatim>\<open>max_heart_rate\<close>, \<^verbatim>\<open>sport\<close> and \<^verbatim>\<open>num_laps_session\<close> are
  never read by the summary and are left out.
\<close>

record session =
  total_distance_m :: "real option"
  total_distance_yd :: "real option"
  total_distance_mi :: "real option"
  total_elapsed_time_s :: "real option"
  total_time_formatted :: "string option"
  total_timer_time_s :: "real option"
  active_time_formatted :: "string option"
  num_active_lengths :: "int option"
  avg_speed_mps :: "real option"
  avg_pace_per_100m :: "string option"
  avg_pace_per_100yd :: "string option"
  total_strokes :: "int option"
  pool_length_m :: "real option"
  pool_length_yd :: "real option"
  is_yard_pool :: "bool option"
  num_lengths :: "int option"

definition empty_session :: session where
  "empty_session = \<lparr>total_distance_m = None, total_distance_yd = None, total_distance_mi = None,
     total_elapsed_time_s = None, total_time_formatted = None, total_timer_time_s = None,
     active_time_formatted = None, num_active_lengths = None, avg_speed_mps = None,
     avg_pace_per_100m = None, avg_pace_per_100yd = None, total_strokes = None,
     pool_length_m = None, pool_length_yd = None, is_yard_pool = None, num_lengths = None\<rparr>"

text \<open>Of a lap, the summary reads the two pace strings only.\<close>

record lap =
  pace_per_100m :: "string option"
  pace_per_100yd :: "string option"

text \<open>Of a length, the summary reads the elapsed time and the two activity marks.\<close>

record length_rec =
  elapsed_time_s :: "real option"
  is_active :: "bool option"
  length_type :: "string option"

text \<open>Of the track points, the summary reads only how many there are.\<close>

record track_point =
  tp_speed_mps :: "real option"
  tp_heart_rate :: "int option"

subsection \<open>Session extraction\<close>

text \<open>
  A decoded field of the session frame: its name (the constructor) and its value, \<open>None\<close>
  for Python's \<^verbatim>\<open>None\<close>. \<open>F_other\<close> stands for every field whose branch writes only keys
  outside the record above, and for every unknown name.
\<close>

datatype session_field =
    F_total_distance "real option"
  | F_total_elapsed_time "real option"
  | F_total_timer_time "real option"
  | F_num_active_lengths "int option"
  | F_avg_speed "real option"
  | F_total_strokes "int option"
  | F_pool_length "real option"
  | F_num_lengths "int option"
  | F_other

text \<open>\<^verbatim>\<open>float(v) if v else 0\<close> and \<^verbatim>\<open>int(v) if v else 0\<close>: \<^verbatim>\<open>None\<close> and zero both give zero.\<close>

definition field_float :: "real option \<Rightarrow> real" where
  "field_float v = (case v of None \<Rightarrow> 0 | Some x \<Rightarrow> if x = 0 then 0 else x)"

definition field_int :: "int option \<Rightarrow> int" where
  "field_int v = (case v of None \<Rightarrow> 0 | Some x \<Rightarrow> if x = 0 then 0 else x)"

text \<open>The table of standard yard pools, in the order the dictionary is written.\<close>

definition yard_pool_lengths :: "(real \<times> real) list" where
  "yard_pool_lengths = [(2286 / 100, 25), (4572 / 100, 50), (2743 / 100, 30)]"

text \<open>The loop over the table, left at the first entry within half a metre.\<close>

fun find_yard_pool :: "real \<Rightarrow> (real \<times> real) list \<Rightarrow> real option" where
  "find_yard_pool pool_length [] = None"
| "find_yard_pool pool_length ((meters, yards) # rest) =
     (if \<bar>pool_length - meters\<bar> < 1 / 2 then Some yards else find_yard_pool pool_length rest)"

definition extract_pool_length :: "real option \<Rightarrow> session \<Rightarrow> session" where
  "extract_pool_length v s =
     (let pool_length = field_float v;
          s1 = s\<lparr>pool_length_m := Some pool_length,
                 pool_length_yd := Some (pool_length * (109361 / 100000))\<rparr>
      in case find_yard_pool pool_length yard_pool_lengths of
           Some yards \<Rightarrow> s1\<lparr>pool_length_yd := Some yards, is_yard_pool := Some True\<rparr>
         | None \<Rightarrow>
             if \<bar>pool_length - 25\<bar> < 1 / 2 \<or> \<bar>pool_length - 50\<bar> < 1 / 2
             then s1\<lparr>is_yard_pool := Some False\<rparr>
             else s1\<lparr>is_yard_pool := Some False\<rparr>)"

fun extract_session_field :: "session \<Rightarrow> session_field \<Rightarrow> session" where
  "extract_session_field s (F_total_distance v) =
     (let m = field_float v
      in s\<lparr>total_distance_m := Some m,
           total_distance_yd := Some (m * (109361 / 100000)),
           total_distance_mi := Some (m * (621371 / 1000000000))\<rparr>)"
| "extract_session_field s (F_total_elapsed_time v) =
     (let t = field_float v
      in s\<lparr>total_elapsed_time_s := Some t, total_time_formatted := Some (format_time t)\<rparr>)"
| "extract_session_field s (F_total_timer_time v) =
     (let t = field_float v
      in s\<lparr>total_timer_time_s := Some t, active_time_formatted := Some (format_time t)\<rparr>)"
| "extract_session_field s (F_num_active_lengths v) =
     s\<lparr>num_active_lengths := Some (field_int v)\<rparr>"
| "extract_session_field s (F_avg_speed v) =
     (let speed = field_float v
      in s\<lparr>avg_speed_mps := Some speed,
           avg_pace_per_100m := calculate_pace speed,
           avg_pace_per_100yd := calculate_pace_per_100yd speed\<rparr>)"
| "extract_session_field s (F_total_strokes v) = s\<lparr>total_strokes := Some (field_int v)\<rparr>"
| "extract_session_field s (F_pool_length v) = extract_pool_length v s"
| "extract_session_field s (F_num_lengths v) = s\<lparr>num_lengths := Some (field_int v)\<rparr>"
| "extract_session_field s F_other = s"

definition extract_session_data :: "session_field list \<Rightarrow> session" where
  "extract_session_data frame = foldl extract_session_field empty_session frame"

subsection \<open>Summary aggregator\<close>

record summary =
  s_total_distance_m :: real
  s_total_distance_yd :: real
  s_total_time :: string
  s_active_time :: string
  s_rest_time :: string
  s_total_strokes :: int
  s_num_laps :: int
  s_num_laps_actual :: nat
  s_num_records :: nat
  s_avg_pace :: "string option"
  s_avg_pace_100m :: string
  s_avg_pace_100yd :: string
  s_pool_length_m :: real
  s_pool_length_yd :: real
  s_pool_length :: real
  s_is_yard_pool :: bool
  s_num_lengths :: int
  s_num_active_lengths :: int
  s_strokes_per_length :: "real option"
  s_avg_strokes_per_lap :: "real option"

text \<open>Step 2: the active time, from the lengths or else from the session timer.\<close>

definition active_lengths :: "length_rec list \<Rightarrow> length_rec list" where
  "active_lengths lengths =
     filter (\<lambda>l. dict_get False (is_active l) \<or> length_type l = Some ''active'') lengths"

definition sum_elapsed :: "length_rec list \<Rightarrow> real" where
  "sum_elapsed ls = sum_list (map (\<lambda>l. dict_get 0 (elapsed_time_s l)) ls)"

definition active_time_s :: "session \<Rightarrow> length_rec list \<Rightarrow> real" where
  "active_time_s session lengths =
     (let num_active = dict_get 0 (num_active_lengths session);
          from_lengths =
            (if lengths \<noteq> []
             then (if active_lengths lengths \<noteq> []
                   then sum_elapsed (active_lengths lengths)
                   else if num_active > 0
                        then sum_elapsed (take (nat num_active) lengths)
                        else 0)
             else 0)
      in if from_lengths = 0 then dict_get 0 (total_timer_time_s session) else from_lengths)"

definition swim_time_s :: "session \<Rightarrow> length_rec list \<Rightarrow> real" where
  "swim_time_s session lengths =
     (let active = active_time_s session lengths
      in if active > 0 then active else dict_get 0 (total_elapsed_time_s session))"

text \<open>Step 3: the loop collecting the lap paces of one unit, and their mean.\<close>

fun lap_paces_loop :: "(lap \<Rightarrow> string option) \<Rightarrow> lap list \<Rightarrow> int list \<Rightarrow> int list" where
  "lap_paces_loop field [] acc = acc"
| "lap_paces_loop field (l # laps) acc =
     (case field l of
        None \<Rightarrow> lap_paces_loop field laps acc
      | Some pace_str \<Rightarrow>
          if pace_str = [] then lap_paces_loop field laps acc
          else (case pace_to_seconds pace_str of
                  Some pace_seconds \<Rightarrow> lap_paces_loop field laps (acc @ [pace_seconds])
                | None \<Rightarrow> lap_paces_loop field laps acc))"

definition lap_avg_pace :: "(lap \<Rightarrow> string option) \<Rightarrow> lap list \<Rightarrow> string option \<Rightarrow> string option" where
  "lap_avg_pace field laps current =
     (let lap_paces = lap_paces_loop field laps []
      in if lap_paces \<noteq> []
         then Some (format_time (real_of_int (sum_list lap_paces) / real (length lap_paces)))
         else current)"

definition avg_paces :: "session \<Rightarrow> lap list \<Rightarrow> length_rec list \<Rightarrow> string option \<times> string option" where
  "avg_paces session laps lengths =
     (let yard = dict_get False (is_yard_pool session);
          distance = dict_get 0 (total_distance_m session);
          swim_time = swim_time_s session lengths;
          pace_100m = (if laps \<noteq> [] \<and> \<not> yard
                       then lap_avg_pace pace_per_100m laps (avg_pace_per_100m session)
                       else avg_pace_per_100m session);
          pace_100yd = (if laps \<noteq> [] \<and> yard
                        then lap_avg_pace pace_per_100yd laps (avg_pace_per_100yd session)
                        else avg_pace_per_100yd session)
      in if \<not> truthy pace_100m \<and> distance > 0 \<and> swim_time > 0
         then (let avg_speed = distance / swim_time
               in (calculate_pace avg_speed,
                   if \<not> truthy pace_100yd then calculate_pace_per_100yd avg_speed
                   else pace_100yd))
         else (pace_100m, pace_100yd))"

text \<open>Step 4 and the rest time.\<close>

definition num_laps_display :: "session \<Rightarrow> lap list \<Rightarrow> length_rec list \<Rightarrow> int" where
  "num_laps_display session laps lengths =
     (let n = dict_get 0 (num_active_lengths session)
      in if n = 0 then (if lengths \<noteq> [] then int (length lengths) else int (length laps))
         else n)"

definition rest_time_s :: "real \<Rightarrow> real \<Rightarrow> real" where
  "rest_time_s total_time active_time =
     (if active_time > 0 \<and> total_time > active_time then total_time - active_time else 0)"

text \<open>\<^verbatim>\<open>p if p else 'N/A'\<close>.\<close>

definition or_na :: "string option \<Rightarrow> string" where
  "or_na p = (case p of None \<Rightarrow> ''N/A'' | Some v \<Rightarrow> if v = [] then ''N/A'' else v)"

definition generate_summary ::
  "session \<Rightarrow> lap list \<Rightarrow> length_rec list \<Rightarrow> track_point list \<Rightarrow> summary" where
  "generate_summary session laps lengths records =
     (let yard = dict_get False (is_yard_pool session);
          total_time = dict_get 0 (total_elapsed_time_s session);
          active = active_time_s session lengths;
          avg_pace_100m = fst (avg_paces session laps lengths);
          avg_pace_100yd = snd (avg_paces session laps lengths);
          rest = rest_time_s total_time active;
          strokes = dict_get 0 (total_strokes session);
          lengths_count = dict_get 0 (num_lengths session)
      in \<lparr>s_total_distance_m = dict_get 0 (total_distance_m session),
          s_total_distance_yd = dict_get 0 (total_distance_yd session),
          s_total_time = dict_get ''00:00'' (total_time_formatted session),
          s_active_time = (if active > 0 then format_time active
                           else dict_get ''00:00'' (active_time_formatted session)),
          s_rest_time = (if rest > 0 then format_time rest else ''00:00''),
          s_total_strokes = strokes,
          s_num_laps = num_laps_display session laps lengths,
          s_num_laps_actual = length laps,
          s_num_records = length records,
          s_avg_pace = (if yard then avg_pace_100yd else Some (or_na avg_pace_100m)),
          s_avg_pace_100m = or_na avg_pace_100m,
          s_avg_pace_100yd = or_na avg_pace_100yd,
          s_pool_length_m = dict_get 0 (pool_length_m session),
          s_pool_length_yd = dict_get 0 (pool_length_yd session),
          s_pool_length = dict_get 0 (if yard then pool_length_yd session
                                      else pool_length_m session),
          s_is_yard_pool = yard,
          s_num_lengths = lengths_count,
          s_num_active_lengths = num_laps_display session laps lengths,
          s_strokes_per_length =
            (if lengths_count > 0 \<and> strokes > 0
             then Some (py_round1 (real_of_int strokes / real_of_int lengths_count))
             else None),
          s_avg_strokes_per_lap =
            (if laps \<noteq> [] \<and> strokes > 0
             then Some (py_round1 (real_of_int strokes / real (length laps)))
             else None)\<rparr>)"

subsection \<open>Cumulative data of the report generator\<close>

definition seconds_to_pace :: "real \<Rightarrow> string" where
  "seconds_to_pace seconds =
     (let minutes = py_floordiv seconds 60;
          secs = \<lfloor>py_mod seconds 60\<rfloor>
      in fmt_02d minutes @ '':'' @ fmt_02d secs)"

text \<open>The speed argument is optional here: \<^verbatim>\<open>None\<close> is tested for, after zero.\<close>

definition calculate_pace_from_speed :: "real option \<Rightarrow> string option" where
  "calculate_pace_from_speed speed_mps =
     (case speed_mps of
        None \<Rightarrow> None
      | Some v \<Rightarrow> if v = 0 then None
                  else let pace_seconds = 100 / v in Some (seconds_to_pace pace_seconds))"

definition calculate_pace_from_speed_yd :: "real option \<Rightarrow> string option" where
  "calculate_pace_from_speed_yd speed_mps =
     (case speed_mps of
        None \<Rightarrow> None
      | Some v \<Rightarrow> if v = 0 then None
                  else let speed_ydps = v * (109361 / 100000);
                           pace_seconds = 100 / speed_ydps
                       in Some (seconds_to_pace pace_seconds))"

text \<open>
  One parsed workout: the dictionary with the keys \<^verbatim>\<open>session\<close>, \<^verbatim>\<open>summary\<close> and
  \<^verbatim>\<open>laps\<close>, each of which may be missing.
\<close>

record workout =
  w_session :: "session option"
  w_summary :: "summary option"
  w_laps :: "lap list option"

text \<open>\<^verbatim>\<open>w.get('summary', {}).get(key, default)\<close>, and the same through the session.\<close>

definition summary_get :: "'a \<Rightarrow> (summary \<Rightarrow> 'a) \<Rightarrow> workout \<Rightarrow> 'a" where
  "summary_get d field w = (case w_summary w of None \<Rightarrow> d | Some sm \<Rightarrow> field sm)"

definition session_get :: "'a \<Rightarrow> (session \<Rightarrow> 'a option) \<Rightarrow> workout \<Rightarrow> 'a" where
  "session_get d field w = (case w_session w of None \<Rightarrow> d | Some se \<Rightarrow> dict_get d (field se))"

text \<open>
  The loop over the workouts that looks for a pace string: each workout whose pace is
  neither empty nor \<^verbatim>\<open>N/A\<close> assigns it, and the loop runs to the end.
\<close>

fun collect_pace :: "(summary \<Rightarrow> string) \<Rightarrow> workout list \<Rightarrow> string option \<Rightarrow> string option" where
  "collect_pace field [] pace = pace"
| "collect_pace field (w # ws) pace =
     (let p = summary_get None (\<lambda>sm. Some (field sm)) w
      in if truthy p \<and> p \<noteq> Some ''N/A'' then collect_pace field ws p
         else collect_pace field ws pace)"

text \<open>The laps of all workouts, each with the number of its workout.\<close>

fun all_laps_from :: "nat \<Rightarrow> workout list \<Rightarrow> (lap \<times> nat) list" where
  "all_laps_from i [] = []"
| "all_laps_from i (w # ws) =
     map (\<lambda>l. (l, i + 1)) (dict_get [] (w_laps w)) @ all_laps_from (i + 1) ws"

text \<open>
  The result, without the stroke breakdown (icons and names of the report). Fewer than two
  workouts give the empty dictionary, here \<open>None\<close>.
\<close>

record cumulative =
  c_total_distance_m :: real
  c_total_distance_yd :: real
  c_total_time :: string
  c_total_time_s :: real
  c_total_strokes :: int
  c_total_laps :: int
  c_num_workouts :: nat
  c_avg_pace_100m :: "string option"
  c_avg_pace_100yd :: "string option"
  c_avg_pace :: "string option"
  c_is_yard_pool :: bool
  c_all_laps :: "(lap \<times> nat) list"

definition generate_cumulative_data :: "workout list \<Rightarrow> cumulative option" where
  "generate_cumulative_data all_swim_data =
     (if length all_swim_data < 2 then None
      else
        let total_distance = sum_list (map (summary_get 0 s_total_distance_m) all_swim_data);
            total_distance_yd = sum_list (map (summary_get 0 s_total_distance_yd) all_swim_data);
            total_time = sum_list (map (session_get 0 total_elapsed_time_s) all_swim_data);
            strokes = sum_list (map (summary_get 0 s_total_strokes) all_swim_data);
            laps_count = sum_list (map (summary_get 0 s_num_laps) all_swim_data);
            recompute = (total_time > 0 \<and> total_distance > 0);
            avg_speed = total_distance / total_time;
            pace_100m = (if recompute then calculate_pace_from_speed (Some avg_speed)
                         else Some (or_na (collect_pace s_avg_pace_100m all_swim_data None)));
            pace_100yd = (if recompute then calculate_pace_from_speed_yd (Some avg_speed)
                          else Some (or_na (collect_pace s_avg_pace_100yd all_swim_data None)));
            yard = (case all_swim_data of [] \<Rightarrow> False | w # _ \<Rightarrow> summary_get False s_is_yard_pool w)
        in Some \<lparr>c_total_distance_m = total_distance,
                 c_total_distance_yd = total_distance_yd,
                 c_total_time = (if total_time > 0 then seconds_to_pace total_time else ''00:00''),
                 c_total_time_s = total_time,
                 c_total_strokes = strokes,
                 c_total_laps = laps_count,
                 c_num_workouts = length all_swim_data,
                 c_avg_pace_100m = pace_100m,
                 c_avg_pace_100yd = pace_100yd,
                 c_avg_pace = (if yard then pace_100yd else pace_100m),
                 c_is_yard_pool = yard,
                 c_all_laps = all_laps_from 0 all_swim_data\<rparr>)"

text \<open>
  What \<^verbatim>\<open>parse\<close> assembles for one file from the session frame and the extracted laps,
  lengths and track points, as far as the report generator reads it.
\<close>

definition parse_result ::
  "session_field list \<Rightarrow> lap list \<Rightarrow> length_rec list \<Rightarrow> track_point list \<Rightarrow> workout" where
  "parse_result session_frame laps lengths records =
     (let session_data = extract_session_data session_frame
      in \<lparr>w_session = Some session_data,
          w_summary = Some (generate_summary session_data laps lengths records),
          w_laps = Some laps\<rparr>)"

subsection \<open>Notions of the specification\<close>

text \<open>
  The seconds a clock string stands for, read with the same splitting and integer parsing
  as the lap loop, for both shapes the time formatter writes (\<open>MM:SS\<close> and \<open>H:MM:SS\<close>).
\<close>

definition clock_seconds :: "string \<Rightarrow> int option" where
  "clock_seconds s =
     (case map py_int (split_colon s) of
        [Some m, Some sec] \<Rightarrow> Some (m * 60 + sec)
      | [Some h, Some m, Some sec] \<Rightarrow> Some (h * 3600 + m * 60 + sec)
      | _ \<Rightarrow> None)"

text \<open>The lap paces that are present and parse, in lap order.\<close>

definition parsed_lap_paces :: "(lap \<Rightarrow> string option) \<Rightarrow> lap list \<Rightarrow> int list" where
  "parsed_lap_paces field laps =
     List.map_filter (\<lambda>l. case field l of None \<Rightarrow> None | Some p \<Rightarrow> pace_to_seconds p) laps"

text \<open>The pace strings of the workouts' summaries that are not empty and not \<^verbatim>\<open>N/A\<close>.\<close>

definition usable_paces :: "(summary \<Rightarrow> string) \<Rightarrow> workout list \<Rightarrow> string list" where
  "usable_paces field ws =
     filter (\<lambda>p. p \<noteq> [] \<and> p \<noteq> ''N/A'')
       (List.map_filter (\<lambda>w. map_option field (w_summary w)) ws)"

definition first_usable_pace :: "(summary \<Rightarrow> string) \<Rightarrow> workout list \<Rightarrow> string" where
  "first_usable_pace field ws =
     (case usable_paces field ws of [] \<Rightarrow> ''N/A'' | p # _ \<Rightarrow> p)"

definition last_usable_pace :: "(summary \<Rightarrow> string) \<Rightarrow> workout list \<Rightarrow> string" where
  "last_usable_pace field ws =
     (case rev (usable_paces field ws) of [] \<Rightarrow> ''N/A'' | p # _ \<Rightarrow> p)"

section \<open>Properties\<close>

subsection \<open>Pool unit classification\<close>

lemma field_float_Some: "field_float (Some x) = x"
  by (simp add: field_float_def)

lemma find_yard_pool_table:
  "find_yard_pool x yard_pool_lengths =
     (if \<bar>x - 2286 / 100\<bar> < 1 / 2 then Some 25
      else if \<bar>x - 4572 / 100\<bar> < 1 / 2 then Some 50
      else if \<bar>x - 2743 / 100\<bar> < 1 / 2 then Some 30 else None)"
  by (simp add: yard_pool_lengths_def)

text \<open>
  Claim C3. The classification of a pool length \<open>x\<close> is a total function of \<open>x\<close>: within
  half a metre of 22.86, 45.72 or 27.43 the session is marked as a yard pool and its length
  in yards is 25, 50 or 30; everywhere else, the neighbourhoods of 25.0 and 50.0 included,
  it is marked as a metre pool and the length in yards is the converted value.
\<close>

theorem pool_classification_total:
  "(\<bar>x - 2286 / 100\<bar> < 1 / 2 \<longrightarrow>
      is_yard_pool (extract_pool_length (Some x) s) = Some True \<and>
      pool_length_yd (extract_pool_length (Some x) s) = Some 25) \<and>
   (\<bar>x - 4572 / 100\<bar> < 1 / 2 \<longrightarrow>
      is_yard_pool (extract_pool_length (Some x) s) = Some True \<and>
      pool_length_yd (extract_pool_length (Some x) s) = Some 50) \<and>
   (\<bar>x - 2743 / 100\<bar> < 1 / 2 \<longrightarrow>
      is_yard_pool (extract_pool_length (Some x) s) = Some True \<and>
      pool_length_yd (extract_pool_length (Some x) s) = Some 30) \<and>
   (\<not> \<bar>x - 2286 / 100\<bar> < 1 / 2 \<and> \<not> \<bar>x - 4572 / 100\<bar> < 1 / 2 \<and> \<not> \<bar>x - 2743 / 100\<bar> < 1 / 2 \<longrightarrow>
      is_yard_pool (extract_pool_length (Some x) s) = Some False \<and>
      pool_length_yd (extract_pool_length (Some x) s) = Some (x * (109361 / 100000))) \<and>
   pool_length_m (extract_pool_length (Some x) s) = Some x"
proof -
  have disjoint: "\<not> (\<bar>x - 2286 / 100\<bar> < 1 / 2 \<and> \<bar>x - 4572 / 100\<bar> < 1 / 2)"
    "\<not> (\<bar>x - 2286 / 100\<bar> < 1 / 2 \<and> \<bar>x - 2743 / 100\<bar> < 1 / 2)"
    "\<not> (\<bar>x - 4572 / 100\<bar> < 1 / 2 \<and> \<bar>x - 2743 / 100\<bar> < 1 / 2)"
    by linarith+
  show ?thesis
    using disjoint
    by (simp add: extract_pool_length_def find_yard_pool_table field_float_Some Let_def)
qed

theorem pool_classification_total_witness:
  "is_yard_pool (extract_pool_length (Some (2286 / 100)) empty_session) = Some True \<and>
   pool_length_yd (extract_pool_length (Some (2286 / 100)) empty_session) = Some 25 \<and>
   pool_length_yd (extract_pool_length (Some 46) empty_session) = Some 50 \<and>
   pool_length_yd (extract_pool_length (Some (273 / 10)) empty_session) = Some 30 \<and>
   is_yard_pool (extract_pool_length (Some 25) empty_session) = Some False \<and>
   is_yard_pool (extract_pool_length (Some 33) empty_session) = Some False"
  using pool_classification_total [of "2286 / 100" empty_session]
    pool_classification_total [of 46 empty_session]
    pool_classification_total [of "273 / 10" empty_session]
    pool_classification_total [of 25 empty_session]
    pool_classification_total [of 33 empty_session]
  by simp

subsection \<open>Strokes per length\<close>

lemma round_half_even_near: "\<bar>real_of_int (round_half_even x) - x\<bar> \<le> 1 / 2"
  unfolding round_half_even_def Let_def by (auto; linarith)

lemma py_round1_near: "\<bar>py_round1 x - x\<bar> \<le> 1 / 20"
proof -
  have "\<bar>real_of_int (round_half_even (x * 10)) - x * 10\<bar> \<le> 1 / 2"
    by (rule round_half_even_near)
  then show ?thesis
    unfolding py_round1_def by (simp add: field_simps abs_le_iff)
qed

lemma py_round1_tenths: "py_round1 x * 10 = real_of_int (round_half_even (x * 10))"
  by (simp add: py_round1_def)

text \<open>
  Claim C9. The strokes-per-length entry of the summary is the quotient of the session's
  stroke count by its length count, rounded to one decimal place, when both counts are
  positive; it is absent when the length count is zero (whatever the stroke count) and when
  the stroke count is not positive. Rounding moves a value by at most one twentieth onto a
  multiple of one tenth.
\<close>

theorem strokes_per_length_rule:
  "(0 < dict_get 0 (num_lengths s) \<and> 0 < dict_get 0 (total_strokes s) \<longrightarrow>
      s_strokes_per_length (generate_summary s laps ls recs) =
        Some (py_round1 (real_of_int (dict_get 0 (total_strokes s)) /
                         real_of_int (dict_get 0 (num_lengths s))))) \<and>
   (dict_get 0 (num_lengths s) = 0 \<longrightarrow>
      s_strokes_per_length (generate_summary s laps ls recs) = None) \<and>
   (dict_get 0 (total_strokes s) \<le> 0 \<longrightarrow>
      s_strokes_per_length (generate_summary s laps ls recs) = None) \<and>
   \<bar>py_round1 x - x\<bar> \<le> 1 / 20 \<and>
   py_round1 x * 10 = real_of_int (round_half_even (x * 10))"
  using py_round1_near [of x] by (simp add: generate_summary_def Let_def py_round1_tenths)

theorem strokes_per_length_rule_witness:
  "s_strokes_per_length (generate_summary
      (extract_session_data [F_total_strokes (Some 250), F_num_lengths (Some 40)]) [] [] []) = Some (31 / 5) \<and>
   s_strokes_per_length (generate_summary
      (extract_session_data [F_total_strokes (Some 250), F_num_lengths (Some 0)]) [] [] []) = None \<and>
   s_strokes_per_length (generate_summary
      (extract_session_data [F_total_strokes (Some 250)]) [] [] []) = None \<and>
   s_strokes_per_length (generate_summary
      (extract_session_data [F_num_lengths (Some 40)]) [] [] []) = None"
  using strokes_per_length_rule [of "extract_session_data [F_total_strokes (Some 250), F_num_lengths (Some 40)]" "[]" "[]" "[]"]
    strokes_per_length_rule [of "extract_session_data [F_total_strokes (Some 250), F_num_lengths (Some 0)]" "[]" "[]" "[]"]
    strokes_per_length_rule [of "extract_session_data [F_total_strokes (Some 250)]" "[]" "[]" "[]"]
    strokes_per_length_rule [of "extract_session_data [F_num_lengths (Some 40)]" "[]" "[]" "[]"]
  by (simp add: extract_session_data_def empty_session_def dict_get_def field_int_def
      py_round1_def round_half_even_def)

subsection \<open>Active time\<close>

lemma active_lengths_filter:
  "active_lengths ls = filter (\<lambda>l. is_active l = Some True \<or> length_type l = Some ''active'') ls"
proof -
  have "dict_get False b = (b = Some True)" for b
    by (cases b) (simp_all add: dict_get_def)
  then show ?thesis by (simp add: active_lengths_def)
qed

text \<open>
  Claim C1. The active time follows the chain of Step 2. With \<open>tagged\<close> the lengths whose
  activity flag is true or whose type is \<^verbatim>\<open>active\<close>: when there are tagged lengths, the
  active time is the sum of their elapsed times, whatever the session's count of active
  lengths; when there are none and that count \<open>n\<close> is positive, it is the sum over the first
  \<open>n\<close> lengths; when the value so found is zero (or no rule applies), it is the session's
  timer time; and the swim time is the active time when positive, else the total elapsed
  time.
\<close>

theorem active_time_fallback_chain:
  fixes s :: session and ls :: "length_rec list"
  defines "tagged \<equiv> filter (\<lambda>l. is_active l = Some True \<or> length_type l = Some ''active'') ls"
    and "n \<equiv> dict_get 0 (num_active_lengths s)"
  shows
  "(tagged \<noteq> [] \<and> sum_elapsed tagged \<noteq> 0 \<longrightarrow> active_time_s s ls = sum_elapsed tagged) \<and>
   (tagged = [] \<and> 0 < n \<and> sum_elapsed (take (nat n) ls) \<noteq> 0 \<longrightarrow>
      active_time_s s ls = sum_elapsed (take (nat n) ls)) \<and>
   ((tagged \<noteq> [] \<and> sum_elapsed tagged = 0) \<or>
    (tagged = [] \<and> 0 < n \<and> sum_elapsed (take (nat n) ls) = 0) \<or>
    (tagged = [] \<and> n \<le> 0) \<longrightarrow>
      active_time_s s ls = dict_get 0 (total_timer_time_s s)) \<and>
   (0 < active_time_s s ls \<longrightarrow> swim_time_s s ls = active_time_s s ls) \<and>
   (active_time_s s ls \<le> 0 \<longrightarrow> swim_time_s s ls = dict_get 0 (total_elapsed_time_s s))"
proof -
  have tagged: "active_lengths ls = tagged"
    by (simp add: tagged_def active_lengths_filter)
  have nil: "ls = [] \<Longrightarrow> tagged = []"
    by (simp add: tagged_def)
  have empty_sum: "sum_elapsed [] = 0"
    by (simp add: sum_elapsed_def)
  show ?thesis
    using nil
    by (auto simp add: active_time_s_def swim_time_s_def tagged n_def [symmetric] Let_def empty_sum)
qed


theorem active_time_fallback_chain_witness:
  "active_time_s (extract_session_data [F_num_active_lengths (Some 3), F_total_timer_time (Some 999)])
     (replicate 10 \<lparr>elapsed_time_s = Some 50, is_active = Some True, length_type = Some ''active''\<rparr> @
      [\<lparr>elapsed_time_s = Some 40, is_active = Some False, length_type = Some ''idle''\<rparr>,
        \<lparr>elapsed_time_s = Some 40, is_active = None, length_type = None\<rparr>]) = 500 \<and>
   active_time_s (extract_session_data [F_num_active_lengths (Some 2), F_total_timer_time (Some 999)])
     [\<lparr>elapsed_time_s = Some 30, is_active = None, length_type = None\<rparr>,
      \<lparr>elapsed_time_s = Some 31, is_active = None, length_type = None\<rparr>,
      \<lparr>elapsed_time_s = Some 32, is_active = None, length_type = None\<rparr>] = 61 \<and>
   active_time_s (extract_session_data [F_total_timer_time (Some 999)])
     [\<lparr>elapsed_time_s = Some 30, is_active = None, length_type = None\<rparr>] = 999 \<and>
   swim_time_s (extract_session_data [F_total_timer_time (Some 999), F_total_elapsed_time (Some 1200)])
     [\<lparr>elapsed_time_s = Some 30, is_active = None, length_type = None\<rparr>] = 999 \<and>
   swim_time_s (extract_session_data [F_total_elapsed_time (Some 1200)]) [] = 1200"
  using
    active_time_fallback_chain [of
      "replicate 10 \<lparr>elapsed_time_s = Some 50, is_active = Some True, length_type = Some ''active''\<rparr> @
       [\<lparr>elapsed_time_s = Some 40, is_active = Some False, length_type = Some ''idle''\<rparr>,
        \<lparr>elapsed_time_s = Some 40, is_active = None, length_type = None\<rparr>]"
      "extract_session_data [F_num_active_lengths (Some 3), F_total_timer_time (Some 999)]"]
    active_time_fallback_chain [of
      "[\<lparr>elapsed_time_s = Some 30, is_active = None, length_type = None\<rparr>,
        \<lparr>elapsed_time_s = Some 31, is_active = None, length_type = None\<rparr>,
        \<lparr>elapsed_time_s = Some 32, is_active = None, length_type = None\<rparr>]"
      "extract_session_data [F_num_active_lengths (Some 2), F_total_timer_time (Some 999)]"]
    active_time_fallback_chain [of
      "[\<lparr>elapsed_time_s = Some 30, is_active = None, length_type = None\<rparr>]"
      "extract_session_data [F_total_timer_time (Some 999)]"]
    active_time_fallback_chain [of
      "[\<lparr>elapsed_time_s = Some 30, is_active = None, length_type = None\<rparr>]"
      "extract_session_data [F_total_timer_time (Some 999), F_total_elapsed_time (Some 1200)]"]
    active_time_fallback_chain [of "[]" "extract_session_data [F_total_elapsed_time (Some 1200)]"]
  by (simp add: extract_session_data_def empty_session_def dict_get_def field_int_def
      field_float_def sum_elapsed_def sum_list_replicate)

subsection \<open>The time formatter on whole seconds\<close>

lemma floordiv_floor: "0 < k \<Longrightarrow> py_floordiv x (real_of_int k) = \<lfloor>x\<rfloor> div k"
  by (simp add: py_floordiv_def floor_divide_real_eq_div)

lemma py_mod_floor: "0 < k \<Longrightarrow> \<lfloor>py_mod x (real_of_int k)\<rfloor> = \<lfloor>x\<rfloor> mod k"
proof -
  assume k: "0 < k"
  have "py_mod x (real_of_int k) = x - real_of_int (k * (\<lfloor>x\<rfloor> div k))"
    using k by (simp add: py_mod_def floor_divide_real_eq_div)
  then have "\<lfloor>py_mod x (real_of_int k)\<rfloor> = \<lfloor>x\<rfloor> - k * (\<lfloor>x\<rfloor> div k)"
    by (simp only: floor_diff_of_int)
  then show ?thesis
    by (simp add: minus_mult_div_eq_mod)
qed

lemma format_time_floor:
  "format_time x =
     (let n = \<lfloor>x\<rfloor>; hours = n div 3600; minutes = (n mod 3600) div 60; secs = n mod 60
      in if hours > 0
         then str_of_int hours @ '':'' @ fmt_02d minutes @ '':'' @ fmt_02d secs
         else fmt_02d minutes @ '':'' @ fmt_02d secs)"
proof -
  have h: "py_floordiv x 3600 = \<lfloor>x\<rfloor> div 3600"
    using floordiv_floor [of 3600 x] by simp
  have s: "\<lfloor>py_mod x 60\<rfloor> = \<lfloor>x\<rfloor> mod 60"
    using py_mod_floor [of 60 x] by simp
  have "py_floordiv (py_mod x 3600) 60 = \<lfloor>py_mod x 3600\<rfloor> div 60"
    using floordiv_floor [of 60 "py_mod x 3600"] by simp
  also have "\<lfloor>py_mod x 3600\<rfloor> = \<lfloor>x\<rfloor> mod 3600"
    using py_mod_floor [of 3600 x] by simp
  finally have m: "py_floordiv (py_mod x 3600) 60 = (\<lfloor>x\<rfloor> mod 3600) div 60" .
  show ?thesis
    by (simp add: format_time_def h m s Let_def)
qed

lemma digit_char_cases:
  "d < 10 \<Longrightarrow> d = 0 \<or> d = 1 \<or> d = 2 \<or> d = 3 \<or> d = 4 \<or> d = 5 \<or> d = 6 \<or> d = 7 \<or> d = 8 \<or> d = (9::nat)"
  by arith

lemma digit_val_digit_char: "d < 10 \<Longrightarrow> digit_val (digit_char d) = Some d"
  using digit_char_cases [of d] by (auto simp add: digit_val_def digit_char_def)

lemma digit_char_neq: "d < 10 \<Longrightarrow> digit_char d \<noteq> CHR '':'' \<and> digit_char d \<noteq> CHR ''_'' \<and>
    digit_char d \<noteq> CHR ''-'' \<and> digit_char d \<noteq> CHR ''+'' \<and> \<not> py_isspace (digit_char d)"
  using digit_char_cases [of d] by (auto simp add: digit_char_def py_isspace_def)

lemma digit_char_inj: "d < 10 \<Longrightarrow> e < 10 \<Longrightarrow> digit_char d = digit_char e \<Longrightarrow> d = e"
proof -
  assume d: "d < 10" and e: "e < 10" and eq: "digit_char d = digit_char e"
  have "Some d = digit_val (digit_char d)"
    using d by (simp only: digit_val_digit_char)
  also have "\<dots> = digit_val (digit_char e)"
    by (simp only: eq)
  also have "\<dots> = Some e"
    using e by (simp only: digit_val_digit_char)
  finally show "d = e" by simp
qed

lemma digit_char_0: "digit_char 0 = CHR ''0''"
  by (simp add: digit_char_def)

lemma fmt_02d_two: "0 \<le> m \<Longrightarrow> m < 100 \<Longrightarrow>
    fmt_02d m = [digit_char (nat m div 10), digit_char (nat m mod 10)]"
proof -
  assume m: "0 \<le> m" "m < 100"
  show ?thesis
  proof (cases "nat m < 10")
    case True
    then show ?thesis
      using m by (simp add: fmt_02d_def str_of_int_def digits.simps [of "nat m"] Let_def digit_char_0)
  next
    case False
    then have "nat m div 10 < 10" using m by simp
    then show ?thesis
      using m False
      by (simp add: fmt_02d_def str_of_int_def digits.simps [of "nat m"]
          digits.simps [of "nat m div 10"] Let_def)
  qed
qed

lemma length_digits: "0 < length (digits n)"
  by (subst digits.simps) simp

lemma digit_char_eq_0_iff: "d < 10 \<Longrightarrow> digit_char d = CHR ''0'' \<longleftrightarrow> d = 0"
  using digit_char_inj [of d 0] by (auto simp add: digit_char_0)

lemma two_digits_zero: "k div 10 = 0 \<and> k mod 10 = 0 \<longleftrightarrow> k = 0" for k :: nat
  by auto

lemma minutes_seconds_zero:
  "0 \<le> n \<Longrightarrow> nat (n div 60) = 0 \<and> nat (n mod 60) = 0 \<longleftrightarrow> n = 0" for n :: int
  using div_mult_mod_eq [of n 60] by auto

lemma format_time_zero_iff:
  assumes "0 \<le> x"
  shows "format_time x = ''00:00'' \<longleftrightarrow> x < 1"
proof -
  define n where "n = \<lfloor>x\<rfloor>"
  have n0: "0 \<le> n" using assms by (simp add: n_def)
  have x1: "x < 1 \<longleftrightarrow> n = 0"
    using assms n0 unfolding n_def by linarith
  have m: "0 \<le> (n mod 3600) div 60" "(n mod 3600) div 60 < 100"
    using n0 by (simp_all add: pos_imp_zdiv_nonneg_iff) 
  have s: "0 \<le> n mod 60" "n mod 60 < 100"
    by simp_all
  show ?thesis
  proof (cases "n div 3600 > 0")
    case True
    then have "n \<noteq> 0" by auto
    moreover have "length (format_time x) \<noteq> 5"
      using True length_digits [of "nat (n div 3600)"]
      by (simp add: format_time_floor n_def [symmetric] Let_def fmt_02d_two [OF m] fmt_02d_two [OF s]
          str_of_int_def)
    then have "format_time x \<noteq> ''00:00''" by auto
    ultimately show ?thesis using x1 by simp
  next
    case False
    then have small: "n < 3600" using n0
      by (smt (verit) pos_imp_zdiv_pos_iff)
    have eq: "format_time x = [digit_char (nat ((n mod 3600) div 60) div 10), digit_char (nat ((n mod 3600) div 60) mod 10),
        CHR '':'', digit_char (nat (n mod 60) div 10), digit_char (nat (n mod 60) mod 10)]"
      using False
      by (simp add: format_time_floor n_def [symmetric] Let_def fmt_02d_two [OF m] fmt_02d_two [OF s])
    have b: "nat ((n mod 3600) div 60) div 10 < 10" "nat ((n mod 3600) div 60) mod 10 < 10"
      "nat (n mod 60) div 10 < 10" "nat (n mod 60) mod 10 < 10"
      using m s by auto
    have "format_time x = ''00:00'' \<longleftrightarrow>
      nat ((n mod 3600) div 60) div 10 = 0 \<and> nat ((n mod 3600) div 60) mod 10 = 0 \<and>
      nat (n mod 60) div 10 = 0 \<and> nat (n mod 60) mod 10 = 0"
      by (simp only: eq list.inject digit_char_eq_0_iff [OF b(1)] digit_char_eq_0_iff [OF b(2)]
          digit_char_eq_0_iff [OF b(3)] digit_char_eq_0_iff [OF b(4)] simp_thms)
    also have "\<dots> \<longleftrightarrow> nat ((n mod 3600) div 60) = 0 \<and> nat (n mod 60) = 0"
      by (simp only: two_digits_zero [of "nat ((n mod 3600) div 60)", symmetric]
          two_digits_zero [of "nat (n mod 60)", symmetric] conj_assoc)
    also have "\<dots> \<longleftrightarrow> nat (n div 60) = 0 \<and> nat (n mod 60) = 0"
      using n0 small by simp
    also have "\<dots> \<longleftrightarrow> n = 0"
      using n0 by (rule minutes_seconds_zero)
    finally show ?thesis using x1 by simp
  qed
qed

subsection \<open>Rest time\<close>

lemma format_time_nonempty: "format_time x \<noteq> []"
  by (simp add: format_time_def Let_def)

lemma rest_time_s_nonneg: "0 \<le> rest_time_s t a"
  by (simp add: rest_time_s_def)

text \<open>
  Claim C4, as the code has it. With a positive active time \<open>a\<close> the rest time is
  \<open>max 0 (t - a)\<close>; with an active time that is not positive it is zero (the subtraction
  is guarded by \<open>a > 0\<close>); it is never negative; and the summary reports \<^verbatim>\<open>00:00\<close>
  exactly when the rest time is below one second, the formatter truncating to whole
  seconds.
\<close>

theorem rest_time_guarded:
  "(0 < a \<longrightarrow> rest_time_s t a = max 0 (t - a)) \<and>
   (a \<le> 0 \<longrightarrow> rest_time_s t a = 0) \<and>
   0 \<le> rest_time_s t a \<and>
   (s_rest_time (generate_summary s laps ls recs) = ''00:00'' \<longleftrightarrow>
      rest_time_s (dict_get 0 (total_elapsed_time_s s)) (active_time_s s ls) < 1)"
proof -
  have "(if 0 < r then format_time r else ''00:00'') = ''00:00'' \<longleftrightarrow> r < 1" for r :: real
    using format_time_zero_iff [of r] by auto
  then have "s_rest_time (generate_summary s laps ls recs) = ''00:00'' \<longleftrightarrow>
      rest_time_s (dict_get 0 (total_elapsed_time_s s)) (active_time_s s ls) < 1"
    by (simp add: generate_summary_def Let_def)
  moreover have "(0 < a \<longrightarrow> rest_time_s t a = max 0 (t - a)) \<and> (a \<le> 0 \<longrightarrow> rest_time_s t a = 0)"
    by (simp add: rest_time_s_def)
  ultimately show ?thesis
    using rest_time_s_nonneg [of t a] by blast
qed

theorem rest_time_guarded_witness:
  "rest_time_s 1200 900 = 300 \<and> rest_time_s 900 1200 = 0 \<and> rest_time_s 1200 0 = 0 \<and>
   s_rest_time (generate_summary
     (extract_session_data [F_total_elapsed_time (Some 1200), F_total_timer_time (Some 900)]) [] [] [])
     \<noteq> ''00:00'' \<and>
   s_rest_time (generate_summary
     (extract_session_data [F_total_elapsed_time (Some 900), F_total_timer_time (Some 1200)]) [] [] [])
     = ''00:00''"
  using rest_time_guarded [of 900 1200 "extract_session_data [F_total_elapsed_time (Some 1200), F_total_timer_time (Some 900)]" "[]" "[]" "[]"]
    rest_time_guarded [of 1200 900 "extract_session_data [F_total_elapsed_time (Some 900), F_total_timer_time (Some 1200)]" "[]" "[]" "[]"]
    rest_time_guarded [of 0 1200 "extract_session_data [F_total_elapsed_time (Some 900), F_total_timer_time (Some 1200)]" "[]" "[]" "[]"]
  by (simp add: extract_session_data_def empty_session_def dict_get_def field_float_def
      active_time_s_def rest_time_s_def)

text \<open>
  The rest time is not \<open>max 0 (t - a)\<close> for every active time of the chain: a session of
  1200 s with neither lengths nor timer time has active time 0 and rest time 0, not 1200.
  And \<^verbatim>\<open>00:00\<close> is also reported for a rest time of half a second, which is not zero
  while the active time is below the total.
\<close>

theorem rest_time_counterexample:
  "rest_time_s 1200 (active_time_s (extract_session_data [F_total_elapsed_time (Some 1200)]) [])
     \<noteq> max 0 (1200 - active_time_s (extract_session_data [F_total_elapsed_time (Some 1200)]) []) \<and>
   s_rest_time (generate_summary
     (extract_session_data [F_total_elapsed_time (Some (201 / 2)), F_total_timer_time (Some 100)]) [] [] [])
     = ''00:00'' \<and>
   rest_time_s (201 / 2)
     (active_time_s (extract_session_data [F_total_elapsed_time (Some (201 / 2)), F_total_timer_time (Some 100)]) [])
     \<noteq> 0 \<and>
   \<not> active_time_s (extract_session_data [F_total_elapsed_time (Some (201 / 2)), F_total_timer_time (Some 100)]) []
     \<ge> 201 / 2"
  by (simp add: extract_session_data_def empty_session_def dict_get_def field_float_def
      active_time_s_def rest_time_s_def generate_summary_def Let_def
      format_time_def py_floordiv_def py_mod_def fmt_02d_def str_of_int_def digits.simps digit_char_def)

subsection \<open>Headline pace\<close>

text \<open>
  Claim C5. The summary of a yard pool session in which no pace can be found (no distance,
  no average speed, no laps) has the headline pace \<open>None\<close>, while its per-100yd entry is
  \<^verbatim>\<open>N/A\<close>: in \<^verbatim>\<open>a if yard else b if b else 'N/A'\<close> the default belongs to the metre
  branch only. The same session in a metre pool has the headline \<^verbatim>\<open>N/A\<close>.
\<close>

theorem yard_pool_headline_pace_none:
  "s_is_yard_pool (generate_summary (extract_session_data [F_total_distance (Some 0), F_total_elapsed_time (Some 60), F_pool_length (Some (2286 / 100))]) [] [] []) \<and>
   s_avg_pace (generate_summary (extract_session_data [F_total_distance (Some 0), F_total_elapsed_time (Some 60), F_pool_length (Some (2286 / 100))]) [] [] []) = None \<and>
   s_avg_pace_100yd (generate_summary (extract_session_data [F_total_distance (Some 0), F_total_elapsed_time (Some 60), F_pool_length (Some (2286 / 100))]) [] [] []) = ''N/A'' \<and>
   s_avg_pace (generate_summary (extract_session_data [F_total_distance (Some 0), F_total_elapsed_time (Some 60), F_pool_length (Some 25)]) [] [] []) = Some ''N/A''"
  by (simp add: extract_session_data_def empty_session_def dict_get_def field_float_def
      extract_pool_length_def yard_pool_lengths_def generate_summary_def Let_def
      avg_paces_def swim_time_s_def active_time_s_def or_na_def truthy_def)

subsection \<open>Pace from distance and swim time\<close>

text \<open>
  Claim C6, as the code has it. With no laps, no pace carried by the session itself (its
  per-100m pace, which comes from the average speed field, is absent) and a positive total
  distance and swim time, the per-100m pace is the pace of the speed distance / swim time;
  the per-100yd pace is the yard pace of that speed unless the session carries one; and in
  a metre pool the headline is the per-100m pace. A session of 1000 m in 1200 s with no
  laps and no lengths has the pace \<^verbatim>\<open>02:00\<close>.
\<close>

theorem distance_pace_without_session_pace:
  assumes "laps = []"
    and "\<not> truthy (avg_pace_per_100m s)"
    and "0 < dict_get 0 (total_distance_m s)"
    and "0 < swim_time_s s ls"
  shows "fst (avg_paces s laps ls) = calculate_pace (dict_get 0 (total_distance_m s) / swim_time_s s ls) \<and>
    snd (avg_paces s laps ls) =
      (if truthy (avg_pace_per_100yd s) then avg_pace_per_100yd s
       else calculate_pace_per_100yd (dict_get 0 (total_distance_m s) / swim_time_s s ls)) \<and>
    s_avg_pace_100m (generate_summary s laps ls recs) =
      format_time (100 / (dict_get 0 (total_distance_m s) / swim_time_s s ls)) \<and>
    (\<not> truthy (avg_pace_per_100yd s) \<longrightarrow>
      s_avg_pace_100yd (generate_summary s laps ls recs) =
        format_time (100 / (dict_get 0 (total_distance_m s) / swim_time_s s ls * (109361 / 100000)))) \<and>
    (\<not> dict_get False (is_yard_pool s) \<longrightarrow>
      s_avg_pace (generate_summary s laps ls recs) =
        Some (format_time (100 / (dict_get 0 (total_distance_m s) / swim_time_s s ls))))"
proof -
  define v where "v = dict_get 0 (total_distance_m s) / swim_time_s s ls"
  have v: "v \<noteq> 0"
    using assms(3,4) by (simp add: v_def)
  have paces: "avg_paces s laps ls =
      (calculate_pace v, if truthy (avg_pace_per_100yd s) then avg_pace_per_100yd s
                         else calculate_pace_per_100yd v)"
    using assms by (simp add: avg_paces_def Let_def v_def)
  have m: "or_na (calculate_pace v) = format_time (100 / v)"
    using v by (simp add: or_na_def calculate_pace_def format_time_nonempty Let_def)
  have yd: "or_na (calculate_pace_per_100yd v) = format_time (100 / (v * (109361 / 100000)))"
    using v by (simp add: or_na_def calculate_pace_per_100yd_def format_time_nonempty Let_def)
  show ?thesis
    unfolding v_def [symmetric]
    by (simp add: generate_summary_def Let_def paces m yd)
qed

lemma scenario_session:
  "extract_session_data [F_total_distance (Some 1000), F_total_elapsed_time (Some 1200)] =
   empty_session\<lparr>total_distance_m := Some 1000, total_distance_yd := Some (1000 * (109361 / 100000)),
     total_distance_mi := Some (1000 * (621371 / 1000000000)),
     total_elapsed_time_s := Some 1200, total_time_formatted := Some (format_time 1200)\<rparr>"
  by (simp add: extract_session_data_def field_float_def)

theorem distance_pace_without_session_pace_witness:
  "s_avg_pace (generate_summary
     (extract_session_data [F_total_distance (Some 1000), F_total_elapsed_time (Some 1200)]) [] [] []) =
     Some ''02:00'' \<and>
   s_avg_pace_100m (generate_summary
     (extract_session_data [F_total_distance (Some 1000), F_total_elapsed_time (Some 1200)]) [] [] []) =
     ''02:00'' \<and>
   s_avg_pace_100yd (generate_summary
     (extract_session_data [F_total_distance (Some 1000), F_total_elapsed_time (Some 1200)]) [] [] []) =
     ''01:49''"
proof -
  let ?s = "extract_session_data [F_total_distance (Some 1000), F_total_elapsed_time (Some 1200)]"
  have fields: "avg_pace_per_100m ?s = None" "avg_pace_per_100yd ?s = None"
    "total_distance_m ?s = Some 1000" "is_yard_pool ?s = None"
    by (simp_all add: scenario_session empty_session_def)
  have swim: "swim_time_s ?s [] = 1200"
    by (simp add: swim_time_s_def active_time_s_def scenario_session empty_session_def dict_get_def)
  have pre: "\<not> truthy (avg_pace_per_100m ?s)" "0 < dict_get 0 (total_distance_m ?s)"
    "0 < swim_time_s ?s []"
    by (simp_all add: fields swim truthy_def dict_get_def)
  have m: "format_time 120 = ''02:00''"
    by (simp add: format_time_def py_floordiv_def py_mod_def fmt_02d_def str_of_int_def
        digits.simps digit_char_def)
  have yd: "format_time (12000000 / 109361) = ''01:49''"
    by (simp add: format_time_def py_floordiv_def py_mod_def fmt_02d_def str_of_int_def
        digits.simps digit_char_def)
  show ?thesis
    using distance_pace_without_session_pace [OF refl pre, of "[]"]
    by (simp add: fields swim truthy_def dict_get_def m yd)
qed

text \<open>
  Without the condition on the session's own pace the statement fails: a session of 1000 m
  in 1200 s whose average speed field is 1 m/s keeps the pace \<^verbatim>\<open>01:40\<close> of that field,
  although there are no laps and distance and swim time are positive.
\<close>

theorem distance_pace_counterexample:
  "0 < dict_get 0 (total_distance_m (extract_session_data
       [F_total_distance (Some 1000), F_total_elapsed_time (Some 1200), F_avg_speed (Some 1)])) \<and>
   0 < swim_time_s (extract_session_data
       [F_total_distance (Some 1000), F_total_elapsed_time (Some 1200), F_avg_speed (Some 1)]) [] \<and>
   calculate_pace (1000 / 1200) = Some ''02:00'' \<and>
   s_avg_pace (generate_summary (extract_session_data
       [F_total_distance (Some 1000), F_total_elapsed_time (Some 1200), F_avg_speed (Some 1)]) [] [] []) =
     Some ''01:40''"
  by (simp add: extract_session_data_def empty_session_def dict_get_def field_float_def
      truthy_def swim_time_s_def active_time_s_def generate_summary_def avg_paces_def or_na_def Let_def
      calculate_pace_def calculate_pace_per_100yd_def
      format_time_def py_floordiv_def py_mod_def fmt_02d_def str_of_int_def digits.simps digit_char_def)

subsection \<open>Cumulative pace\<close>

lemma usable_paces_Cons:
  "usable_paces field (w # ws) =
     (case w_summary w of
        None \<Rightarrow> usable_paces field ws
      | Some sm \<Rightarrow> if field sm \<noteq> [] \<and> field sm \<noteq> ''N/A'' then field sm # usable_paces field ws
                   else usable_paces field ws)"
  by (simp add: usable_paces_def List.map_filter_simps split: option.split)

lemma collect_pace_last:
  "collect_pace field ws acc =
     (case rev (usable_paces field ws) of [] \<Rightarrow> acc | p # _ \<Rightarrow> Some p)"
proof (induction ws arbitrary: acc)
  case Nil
  show ?case by (simp add: usable_paces_def List.map_filter_simps)
next
  case (Cons w ws)
  show ?case
  proof (cases "w_summary w")
    case None
    then show ?thesis
      by (simp add: Cons.IH usable_paces_Cons summary_get_def truthy_def)
  next
    case (Some sm)
    then show ?thesis
      by (cases "rev (usable_paces field ws)")
        (simp_all add: Cons.IH usable_paces_Cons summary_get_def truthy_def Let_def)
  qed
qed

lemma usable_paces_usable: "p \<in> set (usable_paces field ws) \<Longrightarrow> p \<noteq> [] \<and> p \<noteq> ''N/A''"
  by (simp add: usable_paces_def)

lemma or_na_collect_pace:
  "or_na (collect_pace field ws None) = last_usable_pace field ws"
proof (cases "rev (usable_paces field ws)")
  case Nil
  then show ?thesis
    by (simp add: collect_pace_last last_usable_pace_def or_na_def truthy_def)
next
  case (Cons p ps)
  then have "p \<in> set (usable_paces field ws)"
    by (metis list.set_intros(1) set_rev)
  then have "p \<noteq> []"
    using usable_paces_usable by blast
  then show ?thesis
    using Cons by (simp add: collect_pace_last last_usable_pace_def or_na_def truthy_def)
qed

text \<open>
  Claim C7, as the code has it. For two or more workouts the cumulative data exist, and:
  when the combined distance and the combined elapsed time are both positive, the per-100m
  and per-100yd paces are recomputed from combined distance / combined time; otherwise
  each of the two equals the last pace string among the workouts' summaries that is neither
  empty nor \<^verbatim>\<open>N/A\<close>, or \<^verbatim>\<open>N/A\<close> if there is none.
\<close>

theorem cumulative_pace_rule:
  assumes "2 \<le> length ws"
  shows "\<exists>c. generate_cumulative_data ws = Some c \<and>
    (0 < sum_list (map (summary_get 0 s_total_distance_m) ws) \<and>
     0 < sum_list (map (session_get 0 total_elapsed_time_s) ws) \<longrightarrow>
       c_avg_pace_100m c = Some (seconds_to_pace (100 /
         (sum_list (map (summary_get 0 s_total_distance_m) ws) /
          sum_list (map (session_get 0 total_elapsed_time_s) ws)))) \<and>
       c_avg_pace_100yd c = Some (seconds_to_pace (100 /
         (sum_list (map (summary_get 0 s_total_distance_m) ws) /
          sum_list (map (session_get 0 total_elapsed_time_s) ws) * (109361 / 100000))))) \<and>
    (\<not> (0 < sum_list (map (summary_get 0 s_total_distance_m) ws) \<and>
        0 < sum_list (map (session_get 0 total_elapsed_time_s) ws)) \<longrightarrow>
       c_avg_pace_100m c = Some (last_usable_pace s_avg_pace_100m ws) \<and>
       c_avg_pace_100yd c = Some (last_usable_pace s_avg_pace_100yd ws))"
  using assms
  by (auto simp add: generate_cumulative_data_def Let_def or_na_collect_pace
      calculate_pace_from_speed_def calculate_pace_from_speed_yd_def)


lemma parse_result_distance:
  "summary_get 0 s_total_distance_m (parse_result f laps ls recs) =
     dict_get 0 (total_distance_m (extract_session_data f))"
  by (simp add: parse_result_def summary_get_def generate_summary_def Let_def)

lemma parse_result_time:
  "session_get 0 total_elapsed_time_s (parse_result f laps ls recs) =
     dict_get 0 (total_elapsed_time_s (extract_session_data f))"
  by (simp add: parse_result_def session_get_def Let_def)

lemma parse_result_pace_100m:
  "summary_get None (\<lambda>sm. Some (s_avg_pace_100m sm)) (parse_result f laps ls recs) =
     Some (or_na (fst (avg_paces (extract_session_data f) laps ls)))"
  by (simp add: parse_result_def summary_get_def generate_summary_def Let_def)

lemma parse_result_summary_pace_100m:
  "map_option s_avg_pace_100m (w_summary (parse_result f laps ls recs)) =
     Some (or_na (fst (avg_paces (extract_session_data f) laps ls)))"
  by (simp add: parse_result_def generate_summary_def Let_def)

lemma speed_only_session:
  "v \<noteq> 0 \<Longrightarrow> avg_paces (extract_session_data [F_avg_speed (Some v)]) [] [] =
     (Some (format_time (100 / v)), Some (format_time (100 / (v * (109361 / 100000)))))"
  by (simp add: avg_paces_def extract_session_data_def empty_session_def field_float_def
      calculate_pace_def calculate_pace_per_100yd_def truthy_def format_time_nonempty
      dict_get_def Let_def)

lemma speed_only_totals:
  "dict_get 0 (total_distance_m (extract_session_data [F_avg_speed (Some v)])) = 0"
  "dict_get 0 (total_elapsed_time_s (extract_session_data [F_avg_speed (Some v)])) = 0"
  by (simp_all add: extract_session_data_def empty_session_def dict_get_def Let_def)

lemma or_na_Some: "p \<noteq> [] \<Longrightarrow> or_na (Some p) = p"
  by (simp add: or_na_def)

lemma clock_100: "format_time 100 = ''01:40''"
  by (simp add: format_time_def py_floordiv_def py_mod_def fmt_02d_def str_of_int_def
      digits.simps digit_char_def)

lemma clock_50: "format_time 50 = ''00:50''"
  by (simp add: format_time_def py_floordiv_def py_mod_def fmt_02d_def str_of_int_def
      digits.simps digit_char_def)

text \<open>
  The pace taken from the workouts is not the first usable one: two workouts without
  distance and time, whose sessions report the speeds 1 m/s and 2 m/s, have the summary
  paces \<^verbatim>\<open>01:40\<close> and \<^verbatim>\<open>00:50\<close>; the cumulative pace is \<^verbatim>\<open>00:50\<close>, the loop
  having run on after its first find.
\<close>

theorem cumulative_pace_counterexample:
  "sum_list (map (session_get 0 total_elapsed_time_s)
     [parse_result [F_avg_speed (Some 1)] [] [] [], parse_result [F_avg_speed (Some 2)] [] [] []]) = 0 \<and>
   map_option c_avg_pace_100m (generate_cumulative_data
     [parse_result [F_avg_speed (Some 1)] [] [] [], parse_result [F_avg_speed (Some 2)] [] [] []]) =
     Some (Some ''00:50'') \<and>
   first_usable_pace s_avg_pace_100m
     [parse_result [F_avg_speed (Some 1)] [] [] [], parse_result [F_avg_speed (Some 2)] [] [] []] =
     ''01:40''"
proof -
  have p1: "or_na (fst (avg_paces (extract_session_data [F_avg_speed (Some 1)]) [] [])) = ''01:40''"
    using speed_only_session [of 1] by (simp add: or_na_def truthy_def clock_100)
  have p2: "or_na (fst (avg_paces (extract_session_data [F_avg_speed (Some 2)]) [] [])) = ''00:50''"
    using speed_only_session [of 2] by (simp add: or_na_def truthy_def clock_50)
  have code: "map_option c_avg_pace_100m (generate_cumulative_data
     [parse_result [F_avg_speed (Some 1)] [] [] [], parse_result [F_avg_speed (Some 2)] [] [] []]) =
     Some (Some ''00:50'')"
    by (simp add: generate_cumulative_data_def Let_def parse_result_distance parse_result_time
        speed_only_totals parse_result_pace_100m p1 p2 or_na_Some truthy_def)
  have spec: "first_usable_pace s_avg_pace_100m
     [parse_result [F_avg_speed (Some 1)] [] [] [], parse_result [F_avg_speed (Some 2)] [] [] []] =
     ''01:40''"
    by (simp add: first_usable_pace_def usable_paces_def List.map_filter_simps
        parse_result_summary_pace_100m p1 p2)
  show ?thesis
    using code spec by (simp add: parse_result_time speed_only_totals)
qed


lemma distance_time_totals:
  "dict_get 0 (total_distance_m (extract_session_data [F_total_distance (Some d), F_total_elapsed_time (Some t)])) = d"
  "dict_get 0 (total_elapsed_time_s (extract_session_data [F_total_distance (Some d), F_total_elapsed_time (Some t)])) = t"
  by (simp_all add: extract_session_data_def empty_session_def dict_get_def field_float_def Let_def)

lemma pace_120: "seconds_to_pace 120 = ''02:00''"
  by (simp add: seconds_to_pace_def py_floordiv_def py_mod_def fmt_02d_def str_of_int_def
      digits.simps digit_char_def)

theorem cumulative_pace_rule_witness:
  "map_option c_avg_pace_100m (generate_cumulative_data
     [parse_result [F_total_distance (Some 1000), F_total_elapsed_time (Some 1200)] [] [] [],
      parse_result [F_total_distance (Some 500), F_total_elapsed_time (Some 600)] [] [] []]) =
     Some (Some ''02:00'') \<and>
   map_option c_avg_pace_100m (generate_cumulative_data
     [parse_result [F_avg_speed (Some 1)] [] [] [], parse_result [F_avg_speed (Some 2)] [] [] []]) =
     Some (Some ''00:50'')"
proof -
  have p1: "or_na (fst (avg_paces (extract_session_data [F_avg_speed (Some 1)]) [] [])) = ''01:40''"
    using speed_only_session [of 1] by (simp add: or_na_def truthy_def clock_100)
  have p2: "or_na (fst (avg_paces (extract_session_data [F_avg_speed (Some 2)]) [] [])) = ''00:50''"
    using speed_only_session [of 2] by (simp add: or_na_def truthy_def clock_50)
  have last: "last_usable_pace s_avg_pace_100m
     [parse_result [F_avg_speed (Some 1)] [] [] [], parse_result [F_avg_speed (Some 2)] [] [] []] =
     ''00:50''"
    by (simp add: last_usable_pace_def usable_paces_def List.map_filter_simps
        parse_result_summary_pace_100m p1 p2)
  have recomputed: "map_option c_avg_pace_100m (generate_cumulative_data
     [parse_result [F_total_distance (Some 1000), F_total_elapsed_time (Some 1200)] [] [] [],
      parse_result [F_total_distance (Some 500), F_total_elapsed_time (Some 600)] [] [] []]) =
     Some (Some ''02:00'')"
    using cumulative_pace_rule [of
      "[parse_result [F_total_distance (Some 1000), F_total_elapsed_time (Some 1200)] [] [] [],
        parse_result [F_total_distance (Some 500), F_total_elapsed_time (Some 600)] [] [] []]"]
    by (auto simp add: parse_result_distance parse_result_time distance_time_totals pace_120)
  have collected: "map_option c_avg_pace_100m (generate_cumulative_data
     [parse_result [F_avg_speed (Some 1)] [] [] [], parse_result [F_avg_speed (Some 2)] [] [] []]) =
     Some (Some ''00:50'')"
    using cumulative_pace_rule [of
      "[parse_result [F_avg_speed (Some 1)] [] [] [], parse_result [F_avg_speed (Some 2)] [] [] []]"]
    by (auto simp add: parse_result_distance parse_result_time speed_only_totals last)
  show ?thesis
    using recomputed collected by simp
qed

subsection \<open>Splitting and reading what the formatter writes\<close>

lemma split_colon_no_colon: "CHR '':'' \<notin> set a \<Longrightarrow> split_colon a = [a]"
  by (induction a) auto

lemma split_colon_append:
  "CHR '':'' \<notin> set a \<Longrightarrow> split_colon (a @ CHR '':'' # b) = a # split_colon b"
  by (induction a) (auto split: list.split)

lemma digits_chars: "c \<in> set (digits n) \<Longrightarrow> \<exists>d<10. c = digit_char d"
proof (induction n rule: digits.induct)
  case (1 n)
  show ?case
  proof (cases "n < 10")
    case True
    then show ?thesis
      using "1.prems" by (subst (asm) digits.simps) auto
  next
    case False
    have "c \<in> set (digits (n div 10)) \<or> c = digit_char (n mod 10)"
      using "1.prems" False by (subst (asm) digits.simps) auto
    then show ?thesis
    proof
      assume "c \<in> set (digits (n div 10))"
      then show ?thesis using "1.IH" False by simp
    next
      assume "c = digit_char (n mod 10)"
      moreover have "n mod 10 < 10" by simp
      ultimately show ?thesis by blast
    qed
  qed
qed

lemma digits_no_colon: "CHR '':'' \<notin> set (digits n)"
proof
  assume "CHR '':'' \<in> set (digits n)"
  then obtain d where "d < 10" "CHR '':'' = digit_char d"
    using digits_chars by blast
  then show False
    using digit_char_neq [of d] by simp
qed

lemma digits_no_space: "c \<in> set (digits n) \<Longrightarrow> \<not> py_isspace c"
proof -
  assume "c \<in> set (digits n)"
  then obtain d where "d < 10" "c = digit_char d"
    using digits_chars by blast
  then show ?thesis
    using digit_char_neq [of d] by simp
qed

lemma digits_not_empty: "digits n \<noteq> []"
  using length_digits [of n] by auto

lemma int_digits_digits:
  "int_digits acc f (digits n @ t) = int_digits (acc * 10 ^ length (digits n) + n) False t"
proof (induction n arbitrary: acc f t rule: digits.induct)
  case (1 n)
  show ?case
  proof (cases "n < 10")
    case True
    then have d: "digits n = [digit_char n]"
      by (subst digits.simps) simp
    show ?thesis
      using True digit_char_neq [of n] by (simp add: d digit_val_digit_char mult.commute)
  next
    case False
    then have d: "digits n = digits (n div 10) @ [digit_char (n mod 10)]"
      by (subst digits.simps) simp
    have "int_digits acc f (digits n @ t) =
        int_digits acc f (digits (n div 10) @ (digit_char (n mod 10) # t))"
      by (simp add: d)
    also have "\<dots> = int_digits (acc * 10 ^ length (digits (n div 10)) + n div 10) False
        (digit_char (n mod 10) # t)"
      using "1.IH" [OF False] by simp
    also have "\<dots> = int_digits (10 * (acc * 10 ^ length (digits (n div 10)) + n div 10) + n mod 10) False t"
      using digit_char_neq [of "n mod 10"] by (simp add: digit_val_digit_char)
    also have "10 * (acc * 10 ^ length (digits (n div 10)) + n div 10) + n mod 10 =
        acc * 10 ^ length (digits n) + n"
      by (simp add: d algebra_simps)
    finally show ?thesis .
  qed
qed

lemma py_strip_no_space: "\<forall>c\<in>set s. \<not> py_isspace c \<Longrightarrow> py_strip s = s"
proof -
  assume a: "\<forall>c\<in>set s. \<not> py_isspace c"
  have "dropWhile py_isspace t = t" if "\<forall>c\<in>set t. \<not> py_isspace c" for t
    using that by (cases t) auto
  from this [of s] this [of "rev s"] show ?thesis
    using a by (simp add: py_strip_def)
qed

lemma py_int_digits: "py_int (digits n) = Some (int n)"
proof -
  obtain c r where cr: "digits n = c # r"
    using digits_not_empty [of n] by (cases "digits n") auto
  then have "c \<in> set (digits n)" by simp
  then obtain d where d: "d < 10" "c = digit_char d"
    using digits_chars by blast
  have "py_strip (digits n) = digits n"
    by (rule py_strip_no_space) (simp add: digits_no_space)
  then have strip: "py_strip (c # r) = c # r"
    by (simp only: cr)
  have "int_digits 0 False (digits n) = Some n"
    using int_digits_digits [of 0 False n "[]"] by simp
  then have v: "int_digits 0 False (c # r) = Some n"
    by (simp only: cr)
  have c: "c \<noteq> CHR ''-''" "c \<noteq> CHR ''+''" "c \<noteq> CHR ''_''"
    using digit_char_neq [OF d(1)] by (simp_all add: d(2))
  have "py_int (c # r) = Some (int n)"
    unfolding py_int_def strip Let_def using c by (simp add: v del: int_digits.simps)
  then show ?thesis
    by (simp only: cr)
qed

lemma py_int_two_digits:
  "a < 10 \<Longrightarrow> b < 10 \<Longrightarrow> py_int [digit_char a, digit_char b] = Some (int (10 * a + b))"
proof -
  assume a: "a < 10" and b: "b < 10"
  have strip: "py_strip [digit_char a, digit_char b] = [digit_char a, digit_char b]"
    using digit_char_neq [OF a] digit_char_neq [OF b] by (intro py_strip_no_space) simp
  show ?thesis
    using digit_char_neq [OF a] digit_char_neq [OF b]
    by (simp add: py_int_def strip Let_def digit_val_digit_char a b)
qed

lemma py_int_fmt_02d: "0 \<le> m \<Longrightarrow> m < 100 \<Longrightarrow> py_int (fmt_02d m) = Some m"
proof -
  assume m: "0 \<le> m" "m < 100"
  have "nat m div 10 < 10" "nat m mod 10 < 10"
    using m by auto
  then have "py_int (fmt_02d m) = Some (int (10 * (nat m div 10) + nat m mod 10))"
    by (simp only: fmt_02d_two [OF m] py_int_two_digits)
  then show ?thesis
    using m by simp
qed

lemma fmt_02d_no_colon: "0 \<le> m \<Longrightarrow> m < 100 \<Longrightarrow> CHR '':'' \<notin> set (fmt_02d m)"
proof -
  assume m: "0 \<le> m" "m < 100"
  have "nat m div 10 < 10" "nat m mod 10 < 10"
    using m by auto
  then show ?thesis
    using digit_char_neq [of "nat m div 10"] digit_char_neq [of "nat m mod 10"]
    by (auto simp add: fmt_02d_two [OF m])
qed

lemma clock_bounds:
  fixes n :: int
  assumes "0 \<le> n"
  shows "0 \<le> (n mod 3600) div 60" "(n mod 3600) div 60 < 100" "0 \<le> n mod 60" "n mod 60 < 100"
    "n div 3600 * 3600 + (n mod 3600) div 60 * 60 + n mod 60 = n"
    "\<not> 0 < n div 3600 \<Longrightarrow> (n mod 3600) div 60 * 60 + n mod 60 = n"
proof -
  show "0 \<le> (n mod 3600) div 60" "(n mod 3600) div 60 < 100" "0 \<le> n mod 60" "n mod 60 < 100"
    by simp_all
  have a: "n mod 3600 mod 60 = n mod 60"
    by (simp add: mod_mod_cancel)
  have b: "(n mod 3600) div 60 * 60 + n mod 3600 mod 60 = n mod 3600"
    by (rule div_mult_mod_eq)
  have c: "n div 3600 * 3600 + n mod 3600 = n"
    by (rule div_mult_mod_eq)
  show "n div 3600 * 3600 + (n mod 3600) div 60 * 60 + n mod 60 = n"
    using a b c by linarith
  assume "\<not> 0 < n div 3600"
  then have "n div 3600 = 0"
    using assms by (smt (verit) pos_imp_zdiv_neg_iff)
  then show "(n mod 3600) div 60 * 60 + n mod 60 = n"
    using a b c by simp
qed

lemma split_format_time:
  assumes "0 \<le> x"
  shows "split_colon (format_time x) =
     (if 0 < \<lfloor>x\<rfloor> div 3600
      then [digits (nat (\<lfloor>x\<rfloor> div 3600)), fmt_02d ((\<lfloor>x\<rfloor> mod 3600) div 60), fmt_02d (\<lfloor>x\<rfloor> mod 60)]
      else [fmt_02d ((\<lfloor>x\<rfloor> mod 3600) div 60), fmt_02d (\<lfloor>x\<rfloor> mod 60)])"
proof -
  define n where "n = \<lfloor>x\<rfloor>"
  have n0: "0 \<le> n" using assms by (simp add: n_def)
  note b = clock_bounds [OF n0]
  have m: "CHR '':'' \<notin> set (fmt_02d ((n mod 3600) div 60))"
    using b(1,2) by (rule fmt_02d_no_colon)
  have s: "CHR '':'' \<notin> set (fmt_02d (n mod 60))"
    using b(3,4) by (rule fmt_02d_no_colon)
  have ms: "split_colon (fmt_02d ((n mod 3600) div 60) @ CHR '':'' # fmt_02d (n mod 60)) =
      [fmt_02d ((n mod 3600) div 60), fmt_02d (n mod 60)]"
    by (simp only: split_colon_append [OF m] split_colon_no_colon [OF s])
  have hms: "split_colon (digits (nat (n div 3600)) @ CHR '':'' #
        fmt_02d ((n mod 3600) div 60) @ CHR '':'' # fmt_02d (n mod 60)) =
      [digits (nat (n div 3600)), fmt_02d ((n mod 3600) div 60), fmt_02d (n mod 60)]"
    by (simp only: split_colon_append [OF digits_no_colon] ms)
  show ?thesis
    unfolding n_def [symmetric]
    by (simp add: format_time_floor n_def [symmetric] Let_def str_of_int_def ms hms)
qed

lemma clock_seconds_format_time:
  assumes "0 \<le> x"
  shows "clock_seconds (format_time x) = Some \<lfloor>x\<rfloor>"
proof -
  define n where "n = \<lfloor>x\<rfloor>"
  have n0: "0 \<le> n" using assms by (simp add: n_def)
  note b = clock_bounds [OF n0]
  have m: "py_int (fmt_02d ((n mod 3600) div 60)) = Some ((n mod 3600) div 60)"
    using b(1,2) by (rule py_int_fmt_02d)
  have s: "py_int (fmt_02d (n mod 60)) = Some (n mod 60)"
    using b(3,4) by (rule py_int_fmt_02d)
  show ?thesis
  proof (cases "0 < n div 3600")
    case True
    then have h: "py_int (digits (nat (n div 3600))) = Some (n div 3600)"
      by (simp add: py_int_digits)
    show ?thesis
      using True b(5)
      by (simp add: clock_seconds_def split_format_time [OF assms] n_def [symmetric] h m s)
  next
    case False
    show ?thesis
      using False b(6) [OF False]
      by (simp add: clock_seconds_def split_format_time [OF assms] n_def [symmetric] m s)
  qed
qed

lemma pace_to_seconds_format_time:
  assumes "0 \<le> x"
  shows "pace_to_seconds (format_time x) = (if x < 3600 then Some \<lfloor>x\<rfloor> else None)"
proof -
  define n where "n = \<lfloor>x\<rfloor>"
  have n0: "0 \<le> n" using assms by (simp add: n_def)
  note b = clock_bounds [OF n0]
  have m: "py_int (fmt_02d ((n mod 3600) div 60)) = Some ((n mod 3600) div 60)"
    using b(1,2) by (rule py_int_fmt_02d)
  have s: "py_int (fmt_02d (n mod 60)) = Some (n mod 60)"
    using b(3,4) by (rule py_int_fmt_02d)
  have h: "0 < n div 3600 \<longleftrightarrow> 3600 \<le> x"
  proof -
    have "0 < n div 3600 \<longleftrightarrow> 3600 \<le> n"
      by (simp add: pos_imp_zdiv_pos_iff)
    also have "\<dots> \<longleftrightarrow> 3600 \<le> x"
      unfolding n_def by linarith
    finally show ?thesis .
  qed
  show ?thesis
  proof (cases "0 < n div 3600")
    case True
    then show ?thesis
      using h by (simp add: pace_to_seconds_def split_format_time [OF assms] n_def [symmetric] Let_def)
  next
    case False
    then show ?thesis
      using h b(6) [OF False]
      by (simp add: pace_to_seconds_def split_format_time [OF assms] n_def [symmetric] Let_def m s)
  qed
qed

subsection \<open>Pace from speed\<close>

lemma floor_near: "real_of_int \<lfloor>x\<rfloor> \<le> x \<and> \<bar>real_of_int \<lfloor>x\<rfloor> - x\<bar> \<le> 1"
  by linarith

text \<open>
  Claim C8. For a positive speed the pace string read back as seconds is the floor of
  100 / speed, so it lies at most one second below it (for the yard pace, of 100 over the
  speed in yards per second); below one hour the lap loop's own parser reads the same
  number. For speed zero, which is also what an absent speed field is turned into, both
  pace functions return \<open>None\<close> and no division takes place.
\<close>

theorem pace_round_trip:
  "(0 < v \<longrightarrow>
      (\<exists>p n. calculate_pace v = Some p \<and> clock_seconds p = Some n \<and>
         real_of_int n \<le> 100 / v \<and> \<bar>real_of_int n - 100 / v\<bar> \<le> 1 \<and>
         (100 / v < 3600 \<longrightarrow> pace_to_seconds p = Some n))) \<and>
   (0 < v \<longrightarrow>
      (\<exists>p n. calculate_pace_per_100yd v = Some p \<and> clock_seconds p = Some n \<and>
         real_of_int n \<le> 100 / (v * (109361 / 100000)) \<and>
         \<bar>real_of_int n - 100 / (v * (109361 / 100000))\<bar> \<le> 1 \<and>
         (100 / (v * (109361 / 100000)) < 3600 \<longrightarrow> pace_to_seconds p = Some n))) \<and>
   calculate_pace 0 = None \<and> calculate_pace_per_100yd 0 = None \<and>
   calculate_pace (field_float None) = None \<and>
   calculate_pace_per_100yd (field_float None) = None"
proof -
  have readback: "clock_seconds (format_time t) = Some \<lfloor>t\<rfloor> \<and>
      real_of_int \<lfloor>t\<rfloor> \<le> t \<and> \<bar>real_of_int \<lfloor>t\<rfloor> - t\<bar> \<le> 1 \<and>
      (t < 3600 \<longrightarrow> pace_to_seconds (format_time t) = Some \<lfloor>t\<rfloor>)" if "0 \<le> t" for t
    using clock_seconds_format_time [OF that] pace_to_seconds_format_time [OF that]
      floor_near [of t] by simp
  have m: "\<exists>p n. calculate_pace v = Some p \<and> clock_seconds p = Some n \<and>
         real_of_int n \<le> 100 / v \<and> \<bar>real_of_int n - 100 / v\<bar> \<le> 1 \<and>
         (100 / v < 3600 \<longrightarrow> pace_to_seconds p = Some n)" if "0 < v"
  proof -
    have "0 \<le> 100 / v" using that by simp
    moreover have "calculate_pace v = Some (format_time (100 / v))"
      using that by (simp add: calculate_pace_def Let_def)
    ultimately show ?thesis
      using readback [of "100 / v"] by blast
  qed
  have yd: "\<exists>p n. calculate_pace_per_100yd v = Some p \<and> clock_seconds p = Some n \<and>
         real_of_int n \<le> 100 / (v * (109361 / 100000)) \<and>
         \<bar>real_of_int n - 100 / (v * (109361 / 100000))\<bar> \<le> 1 \<and>
         (100 / (v * (109361 / 100000)) < 3600 \<longrightarrow> pace_to_seconds p = Some n)" if "0 < v"
  proof -
    have "0 \<le> 100 / (v * (109361 / 100000))" using that by simp
    moreover have "calculate_pace_per_100yd v = Some (format_time (100 / (v * (109361 / 100000))))"
      using that by (simp add: calculate_pace_per_100yd_def Let_def)
    ultimately show ?thesis
      using readback [of "100 / (v * (109361 / 100000))"] by blast
  qed
  have z: "calculate_pace 0 = None" "calculate_pace_per_100yd 0 = None"
    "calculate_pace (field_float None) = None" "calculate_pace_per_100yd (field_float None) = None"
    by (simp_all add: calculate_pace_def calculate_pace_per_100yd_def field_float_def)
  show ?thesis
    using m yd z by blast
qed

theorem pace_round_trip_witness:
  "calculate_pace (5 / 6) = Some ''02:00'' \<and>
   (\<exists>n. clock_seconds ''02:00'' = Some n \<and> pace_to_seconds ''02:00'' = Some n \<and>
      \<bar>real_of_int n - 120\<bar> \<le> 1) \<and>
   calculate_pace 0 = None"
proof -
  have cp: "calculate_pace (5 / 6) = Some ''02:00''"
    by (simp add: calculate_pace_def format_time_def py_floordiv_def py_mod_def fmt_02d_def
        str_of_int_def digits.simps digit_char_def)
  have pos: "(0::real) < 5 / 6" by simp
  from pace_round_trip [of "5 / 6"] pos
  obtain p n where "calculate_pace (5 / 6) = Some p" "clock_seconds p = Some n"
    "\<bar>real_of_int n - 100 / (5 / 6)\<bar> \<le> 1"
    "100 / (5 / 6) < (3600::real) \<longrightarrow> pace_to_seconds p = Some n" by blast
  then have "clock_seconds ''02:00'' = Some n \<and> pace_to_seconds ''02:00'' = Some n \<and>
      \<bar>real_of_int n - 120\<bar> \<le> 1"
    using cp by simp
  then show ?thesis
    using cp pace_round_trip [of 0] by blast
qed

subsection \<open>Average of the lap paces\<close>

lemma pace_to_seconds_empty: "pace_to_seconds [] = None"
  by (simp add: pace_to_seconds_def)

lemma parsed_lap_paces_Cons:
  "parsed_lap_paces field (l # laps) =
     (case field l of
        None \<Rightarrow> parsed_lap_paces field laps
      | Some p \<Rightarrow> (case pace_to_seconds p of
                     None \<Rightarrow> parsed_lap_paces field laps
                   | Some v \<Rightarrow> v # parsed_lap_paces field laps))"
  by (simp add: parsed_lap_paces_def List.map_filter_simps split: option.split)

lemma lap_paces_loop_parsed:
  "lap_paces_loop field laps acc = acc @ parsed_lap_paces field laps"
proof (induction laps arbitrary: acc)
  case Nil
  show ?case by (simp add: parsed_lap_paces_def List.map_filter_simps)
next
  case (Cons l laps)
  show ?case
  proof (cases "field l")
    case None
    then show ?thesis
      by (simp add: Cons.IH parsed_lap_paces_Cons)
  next
    case (Some p)
    then show ?thesis
      by (cases "p = []")
        (simp_all add: Cons.IH parsed_lap_paces_Cons pace_to_seconds_empty split: option.split)
  qed
qed

lemma lap_avg_pace_parsed:
  "lap_avg_pace field laps current =
     (if parsed_lap_paces field laps \<noteq> []
      then Some (format_time (real_of_int (sum_list (parsed_lap_paces field laps)) /
                              real (length (parsed_lap_paces field laps))))
      else current)"
  by (simp add: lap_avg_pace_def lap_paces_loop_parsed Let_def)

lemma parsed_lap_paces_Nil: "parsed_lap_paces field [] = []"
  by (simp add: parsed_lap_paces_def List.map_filter_simps)

text \<open>
  Claim C2. Take the lap paces of the pool's classified unit that are present and parse as
  \<open>MM:SS\<close>, in seconds. When there is at least one, the average pace of that unit is
  their arithmetic mean written by the time formatter, and it is the headline pace; laps
  whose pace is absent or does not parse do not enter the mean. For a metre pool with the
  lap paces \<^verbatim>\<open>01:30\<close> and \<^verbatim>\<open>01:40\<close> the average pace is \<^verbatim>\<open>01:35\<close>.
\<close>

theorem lap_pace_average:
  fixes s :: session and laps :: "lap list"
  defines "yard \<equiv> dict_get False (is_yard_pool s)"
  defines "ps \<equiv> parsed_lap_paces (if yard then pace_per_100yd else pace_per_100m) laps"
  defines "mean \<equiv> real_of_int (sum_list ps) / real (length ps)"
  assumes "ps \<noteq> []"
  shows "(if yard then snd (avg_paces s laps ls) else fst (avg_paces s laps ls)) = Some (format_time mean) \<and>
    (if yard then s_avg_pace_100yd (generate_summary s laps ls recs)
     else s_avg_pace_100m (generate_summary s laps ls recs)) = format_time mean \<and>
    s_avg_pace (generate_summary s laps ls recs) = Some (format_time mean)"
proof -
  have laps: "laps \<noteq> []"
    using assms(4) unfolding ps_def by (auto simp add: parsed_lap_paces_Nil)
  have t: "truthy (Some (format_time mean))"
    by (simp add: truthy_def format_time_nonempty)
  have na: "or_na (Some (format_time mean)) = format_time mean"
    by (simp add: or_na_Some format_time_nonempty)
  show ?thesis
  proof (cases yard)
    case True
    then have ps: "parsed_lap_paces pace_per_100yd laps = ps"
      by (simp add: ps_def)
    have "snd (avg_paces s laps ls) = Some (format_time mean)"
      using True laps assms(4) t
      by (simp add: avg_paces_def yard_def [symmetric] lap_avg_pace_parsed ps Let_def mean_def)
    then show ?thesis
      using True by (simp add: generate_summary_def yard_def [symmetric] Let_def na)
  next
    case False
    then have ps: "parsed_lap_paces pace_per_100m laps = ps"
      by (simp add: ps_def)
    have "fst (avg_paces s laps ls) = Some (format_time mean)"
      using False laps assms(4) t
      by (simp add: avg_paces_def yard_def [symmetric] lap_avg_pace_parsed ps Let_def mean_def)
    then show ?thesis
      using False by (simp add: generate_summary_def yard_def [symmetric] Let_def na)
  qed
qed


lemma metre_pool_session:
  "dict_get False (is_yard_pool (extract_session_data [F_pool_length (Some 25)])) = False"
  by (simp add: extract_session_data_def extract_pool_length_def find_yard_pool_table
      field_float_Some dict_get_def Let_def)

lemma clock_95: "format_time 95 = ''01:35''"
  by (simp add: format_time_def py_floordiv_def py_mod_def fmt_02d_def str_of_int_def
      digits.simps digit_char_def)

lemma example_paces:
  "pace_to_seconds ''01:30'' = Some 90" "pace_to_seconds ''01:40'' = Some 100"
  "pace_to_seconds ''1:02:03'' = None" "pace_to_seconds ''ab:cd'' = None"
  by (simp_all add: pace_to_seconds_def py_int_def py_strip_def py_isspace_def digit_val_def)

theorem lap_pace_average_witness:
  "s_avg_pace (generate_summary (extract_session_data [F_pool_length (Some 25)])
     [\<lparr>pace_per_100m = Some ''01:30'', pace_per_100yd = Some ''01:22''\<rparr>,
      \<lparr>pace_per_100m = Some ''01:40'', pace_per_100yd = Some ''01:31''\<rparr>] [] []) = Some ''01:35'' \<and>
   s_avg_pace (generate_summary (extract_session_data [F_pool_length (Some 25)])
     [\<lparr>pace_per_100m = Some ''01:30'', pace_per_100yd = Some ''01:22''\<rparr>,
      \<lparr>pace_per_100m = None, pace_per_100yd = None\<rparr>,
      \<lparr>pace_per_100m = Some ''1:02:03'', pace_per_100yd = Some ''56:44''\<rparr>,
      \<lparr>pace_per_100m = Some ''ab:cd'', pace_per_100yd = None\<rparr>,
      \<lparr>pace_per_100m = Some ''01:40'', pace_per_100yd = Some ''01:31''\<rparr>] [] []) = Some ''01:35''"
proof -
  let ?s = "extract_session_data [F_pool_length (Some 25)]"
  let ?two = "[\<lparr>pace_per_100m = Some ''01:30'', pace_per_100yd = Some ''01:22''\<rparr>,
      \<lparr>pace_per_100m = Some ''01:40'', pace_per_100yd = Some ''01:31''\<rparr>]"
  let ?five = "[\<lparr>pace_per_100m = Some ''01:30'', pace_per_100yd = Some ''01:22''\<rparr>,
      \<lparr>pace_per_100m = None, pace_per_100yd = None\<rparr>,
      \<lparr>pace_per_100m = Some ''1:02:03'', pace_per_100yd = Some ''56:44''\<rparr>,
      \<lparr>pace_per_100m = Some ''ab:cd'', pace_per_100yd = None\<rparr>,
      \<lparr>pace_per_100m = Some ''01:40'', pace_per_100yd = Some ''01:31''\<rparr>]"
  have two: "parsed_lap_paces pace_per_100m ?two = [90, 100]"
    by (simp add: parsed_lap_paces_Cons parsed_lap_paces_Nil example_paces)
  have five: "parsed_lap_paces pace_per_100m ?five = [90, 100]"
    by (simp add: parsed_lap_paces_Cons parsed_lap_paces_Nil example_paces)
  have "s_avg_pace (generate_summary ?s ?two [] []) = Some ''01:35''"
    using lap_pace_average [of ?s ?two "[]" "[]"]
    by (simp add: metre_pool_session two clock_95)
  moreover have "s_avg_pace (generate_summary ?s ?five [] []) = Some ''01:35''"
    using lap_pace_average [of ?s ?five "[]" "[]"]
    by (simp add: metre_pool_session five clock_95)
  ultimately show ?thesis by simp
qed

subsection \<open>Lap paces of an hour or more\<close>

lemma three_parts_excluded: "length (split_colon p) = 3 \<Longrightarrow> pace_to_seconds p = None"
  by (simp add: pace_to_seconds_def)

lemma parsed_lap_paces_three_parts:
  "\<forall>l\<in>set laps. \<forall>p. field l = Some p \<longrightarrow> length (split_colon p) = 3 \<Longrightarrow>
     parsed_lap_paces field laps = []"
proof (induction laps)
  case Nil
  show ?case by (rule parsed_lap_paces_Nil)
next
  case (Cons l laps)
  then show ?case
    by (auto simp add: parsed_lap_paces_Cons three_parts_excluded split: option.split)
qed

lemma avg_paces_no_lap_pace:
  assumes "parsed_lap_paces (if dict_get False (is_yard_pool s) then pace_per_100yd else pace_per_100m) laps = []"
  shows "avg_paces s laps ls = avg_paces s [] ls"
  using assms by (simp add: avg_paces_def lap_avg_pace_parsed Let_def split: if_splits)

text \<open>
  Claim C10. A pace of 3600 seconds or more is written by the time formatter with three
  colon-separated parts, which the lap loop does not parse: such a lap is passed over.
  Consequently, when every present lap pace of the classified unit has three parts, the
  loop collects nothing, and the paces of the summary are those of the same session
  without laps, that is, what the next rule of the chain gives.
\<close>

theorem hour_paces_excluded:
  "(3600 \<le> x \<longrightarrow>
      length (split_colon (format_time x)) = 3 \<and> pace_to_seconds (format_time x) = None) \<and>
   (3600 \<le> x \<and> field l = Some (format_time x) \<longrightarrow>
      lap_paces_loop field (l # laps) acc = lap_paces_loop field laps acc) \<and>
   ((\<forall>l\<in>set laps. \<forall>p.
        (if dict_get False (is_yard_pool s) then pace_per_100yd l else pace_per_100m l) = Some p \<longrightarrow>
        length (split_colon p) = 3) \<longrightarrow>
      lap_paces_loop (if dict_get False (is_yard_pool s) then pace_per_100yd else pace_per_100m) laps [] = [] \<and>
      avg_paces s laps ls = avg_paces s [] ls \<and>
      s_avg_pace (generate_summary s laps ls recs) = s_avg_pace (generate_summary s [] ls recs) \<and>
      s_avg_pace_100m (generate_summary s laps ls recs) = s_avg_pace_100m (generate_summary s [] ls recs) \<and>
      s_avg_pace_100yd (generate_summary s laps ls recs) = s_avg_pace_100yd (generate_summary s [] ls recs))"
proof -
  have hour: "length (split_colon (format_time x)) = 3 \<and> pace_to_seconds (format_time x) = None"
    if "3600 \<le> x"
  proof -
    have x0: "0 \<le> x" using that by simp
    have "3600 \<le> \<lfloor>x\<rfloor>" using that by linarith
    then have "0 < \<lfloor>x\<rfloor> div 3600"
      by (simp add: pos_imp_zdiv_pos_iff)
    then have "length (split_colon (format_time x)) = 3"
      by (simp add: split_format_time [OF x0])
    then show ?thesis
      by (simp add: three_parts_excluded)
  qed
  have laps: "lap_paces_loop (if dict_get False (is_yard_pool s) then pace_per_100yd else pace_per_100m) laps [] = [] \<and>
      avg_paces s laps ls = avg_paces s [] ls \<and>
      s_avg_pace (generate_summary s laps ls recs) = s_avg_pace (generate_summary s [] ls recs) \<and>
      s_avg_pace_100m (generate_summary s laps ls recs) = s_avg_pace_100m (generate_summary s [] ls recs) \<and>
      s_avg_pace_100yd (generate_summary s laps ls recs) = s_avg_pace_100yd (generate_summary s [] ls recs)"
    if h: "\<forall>l\<in>set laps. \<forall>p.
        (if dict_get False (is_yard_pool s) then pace_per_100yd l else pace_per_100m l) = Some p \<longrightarrow>
        length (split_colon p) = 3"
  proof -
    have "parsed_lap_paces (if dict_get False (is_yard_pool s) then pace_per_100yd else pace_per_100m) laps = []"
      using h by (intro parsed_lap_paces_three_parts) (simp split: if_splits)
    then have none: "lap_paces_loop (if dict_get False (is_yard_pool s) then pace_per_100yd else pace_per_100m) laps [] = []"
      and same: "avg_paces s laps ls = avg_paces s [] ls"
      by (simp_all add: lap_paces_loop_parsed avg_paces_no_lap_pace)
    show ?thesis
      using none by (simp add: generate_summary_def Let_def same)
  qed
  have skip: "lap_paces_loop field (l # laps) acc = lap_paces_loop field laps acc"
    if "3600 \<le> x" "field l = Some (format_time x)"
    using hour [OF that(1)] that(2) by (simp add: format_time_nonempty)
  show ?thesis
    using hour skip laps by blast
qed


lemma scenario_with_slow_lap:
  "dict_get False (is_yard_pool (extract_session_data
      [F_total_distance (Some 1000), F_total_elapsed_time (Some 1200)])) = False"
  "s_avg_pace (generate_summary (extract_session_data
      [F_total_distance (Some 1000), F_total_elapsed_time (Some 1200)]) [] [] []) = Some ''02:00''"
  by (simp_all add: scenario_session empty_session_def dict_get_def
      truthy_def swim_time_s_def active_time_s_def generate_summary_def avg_paces_def or_na_def Let_def
      calculate_pace_def calculate_pace_per_100yd_def
      format_time_def py_floordiv_def py_mod_def fmt_02d_def str_of_int_def digits.simps digit_char_def)

lemma clock_5000: "format_time 5000 = ''1:23:20''"
  by (simp add: format_time_def py_floordiv_def py_mod_def fmt_02d_def str_of_int_def
      digits.simps digit_char_def)

theorem hour_paces_excluded_witness:
  "pace_to_seconds ''1:23:20'' = None \<and>
   lap_paces_loop pace_per_100m
     [\<lparr>pace_per_100m = Some ''1:23:20'', pace_per_100yd = Some ''1:16:12''\<rparr>,
      \<lparr>pace_per_100m = Some ''01:30'', pace_per_100yd = Some ''01:22''\<rparr>] [] = [90] \<and>
   s_avg_pace (generate_summary
     (extract_session_data [F_total_distance (Some 1000), F_total_elapsed_time (Some 1200)])
     [\<lparr>pace_per_100m = Some ''1:23:20'', pace_per_100yd = Some ''1:16:12''\<rparr>] [] []) = Some ''02:00''"
proof -
  let ?s = "extract_session_data [F_total_distance (Some 1000), F_total_elapsed_time (Some 1200)]"
  let ?slow = "\<lparr>pace_per_100m = Some ''1:23:20'', pace_per_100yd = Some ''1:16:12''\<rparr>"
  let ?fast = "\<lparr>pace_per_100m = Some ''01:30'', pace_per_100yd = Some ''01:22''\<rparr>"
  have a: "pace_to_seconds ''1:23:20'' = None"
    using hour_paces_excluded [where x = 5000] by (simp add: clock_5000)
  have "lap_paces_loop pace_per_100m [?slow, ?fast] [] = lap_paces_loop pace_per_100m [?fast] []"
    using hour_paces_excluded [where x = 5000 and field = pace_per_100m and l = ?slow
        and laps = "[?fast]" and acc = "[]"]
    by (simp add: clock_5000)
  then have b: "lap_paces_loop pace_per_100m [?slow, ?fast] [] = [90]"
    by (simp add: example_paces)
  have c: "s_avg_pace (generate_summary ?s [?slow] [] []) = Some ''02:00''"
    using hour_paces_excluded [where laps = "[?slow]" and s = ?s and ls = "[]" and recs = "[]"]
    by (simp add: scenario_with_slow_lap)
  show ?thesis
    using a b c by simp
qed

end
